theory Spec2Isabelle
  imports Main "HOL-Library.Sublist"
begin

section \<open>JavaScript values, errors and the file system\<close>

text \<open>
  The configuration objects of vscode-test-cli are loosely typed
  (\<^verbatim>\<open>Record<string, unknown>\<close>): a property holds any JavaScript value. Numbers are
  restricted to integers here; no check of the program looks inside a number.
\<close>

datatype jsval =
    JUndefined
  | JNull
  | JBool bool
  | JNum int
  | JStr string
  | JArr "jsval list"
  | JObj "(string \<times> jsval) list"

type_synonym jsrecord = "string \<rightharpoonup> jsval"

text \<open>Reading a property: an absent key reads as \<^verbatim>\<open>undefined\<close>.\<close>

definition getProp :: "jsrecord \<Rightarrow> string \<Rightarrow> jsval" where
  "getProp config k = (case config k of None \<Rightarrow> JUndefined | Some v \<Rightarrow> v)"

text \<open>A thrown \<^verbatim>\<open>Error\<close> carries its message.\<close>

datatype error = Error string

fun message :: "error \<Rightarrow> string" where
  "message (Error m) = m"

text \<open>\<^verbatim>\<open>String.prototype.includes\<close> and \<^verbatim>\<open>String.prototype.endsWith\<close>.\<close>

definition stringIncludes :: "string \<Rightarrow> string \<Rightarrow> bool" where
  "stringIncludes s sub = sublist sub s"

definition endsWith :: "string \<Rightarrow> string \<Rightarrow> bool" where
  "endsWith s suf = suffix suf s"

text \<open>An error names a field when its message contains the field's name.\<close>

definition names :: "error \<Rightarrow> string \<Rightarrow> bool" where
  "names e field = stringIncludes (message e) field"

text \<open>Sequencing of steps that may throw: the first error ends the computation.\<close>

definition bindE :: "error + 'a \<Rightarrow> ('a \<Rightarrow> error + 'b) \<Rightarrow> error + 'b" where
  "bindE m f = (case m of Inl e \<Rightarrow> Inl e | Inr v \<Rightarrow> f v)"

text \<open>
  The file system as the program observes it: a path is absent, a file, or a directory
  with the names \<^verbatim>\<open>readdir\<close> lists.
\<close>

datatype fs_entry = File | Directory "string list"

type_synonym filesystem = "string \<rightharpoonup> fs_entry"

definition pathExists :: "filesystem \<Rightarrow> string \<Rightarrow> bool" where
  "pathExists fs p = (fs p \<noteq> None)"

text \<open>\<^verbatim>\<open>(await stat(p)).isDirectory()\<close>; the program calls it on existing paths only.\<close>

definition isDirectory :: "filesystem \<Rightarrow> string \<Rightarrow> bool" where
  "isDirectory fs p = (case fs p of Some (Directory _) \<Rightarrow> True | _ \<Rightarrow> False)"

section \<open>The configuration resolver\<close>

record ResolvedConfiguration =
  extensionDevelopmentPath :: string
  workspacePath :: string
  initWorkspace :: bool
  mochaConfigPath :: string
  nycConfigPath :: "string option"
  userDataDir :: "string option"
  vscodeVersion :: "string option"
  additionalExtensionFolders :: "string list option"
  uninstallExtensionIDs :: "string list option"
  disabledExtensionIDs :: "string list option"
  disableAllExtensions :: bool

text \<open>
  The two assertion functions narrow the type of the value they check
  (\<^verbatim>\<open>asserts value is string | undefined\<close>); the model returns the narrowed value,
  \<open>None\<close> for \<^verbatim>\<open>undefined\<close>.
\<close>

definition assertStringOrUndefinedParameter :: "string \<Rightarrow> jsval \<Rightarrow> error + string option" where
  "assertStringOrUndefinedParameter name v =
     (case v of
        JUndefined \<Rightarrow> Inr None
      | JStr s \<Rightarrow> Inr (Some s)
      | _ \<Rightarrow> Inl (Error (''Configuration error: '' @ name @ '' must be a string'')))"

fun stringValues :: "string \<Rightarrow> jsval list \<Rightarrow> error + string list" where
  "stringValues name [] = Inr []"
| "stringValues name (JStr s # vs) = bindE (stringValues name vs) (\<lambda>ss. Inr (s # ss))"
| "stringValues name (v # vs) =
     Inl (Error (''Configuration error: '' @ name @ '' must be a string array''))"

definition assertStringArrayOrUndefinedParameter ::
  "string \<Rightarrow> jsval \<Rightarrow> error + string list option" where
  "assertStringArrayOrUndefinedParameter name arrayValue =
     (case arrayValue of
        JUndefined \<Rightarrow> Inr None
      | JArr vs \<Rightarrow> bindE (stringValues name vs) (\<lambda>ss. Inr (Some ss))
      | _ \<Rightarrow> Inl (Error (''Configuration error: '' @ name @ '' must be a string array'')))"

text \<open>
  \<^verbatim>\<open>resolve\<close> is \<^verbatim>\<open>path.resolve\<close> of the platform in use, a parameter of the model; every
  use in the resolver has two arguments.
\<close>

definition validateNycConfigPath ::
  "(string \<Rightarrow> string \<Rightarrow> string) \<Rightarrow> bool \<Rightarrow> jsrecord \<Rightarrow> string \<Rightarrow> error + string option" where
  "validateNycConfigPath resolve isCoverage config configRelPath =
     (if isCoverage then
        bindE (assertStringOrUndefinedParameter ''nycConfigPath'' (getProp config ''nycConfigPath''))
          (\<lambda>nyc. case nyc of
              None \<Rightarrow> Inl (Error
                ''Configuration error: nycConfigPath must be defined when coverage is enabled'')
            | Some p \<Rightarrow> Inr (Some (resolve configRelPath p)))
      else Inr None)"

definition validateInitWorkspace ::
  "filesystem \<Rightarrow> jsrecord \<Rightarrow> bool \<Rightarrow> string \<Rightarrow> error + bool" where
  "validateInitWorkspace fs config isWorkspaceFile wsPath =
     (case getProp config ''initWorkspace'' of
        JUndefined \<Rightarrow> Inr (isWorkspaceFile \<and> \<not> pathExists fs wsPath)
      | JBool b \<Rightarrow>
          (if b \<and> \<not> isWorkspaceFile then
             Inl (Error (''Configuration error: initWorkspace can be true only ''
                         @ ''for a workspace file and not a folder''))
           else Inr b)
      | _ \<Rightarrow> Inl (Error ''Configuration error: initWorkspace must be a boolean''))"

text \<open>lodash \<^verbatim>\<open>isEmpty\<close> on a value of type \<^verbatim>\<open>string[] | undefined\<close>.\<close>

definition isEmpty :: "string list option \<Rightarrow> bool" where
  "isEmpty xs = (case xs of None \<Rightarrow> True | Some ys \<Rightarrow> ys = [])"

definition validateAndResolveConfiguration ::
  "(string \<Rightarrow> string \<Rightarrow> string) \<Rightarrow> filesystem \<Rightarrow> string \<Rightarrow> jsrecord \<Rightarrow> bool
     \<Rightarrow> error + ResolvedConfiguration" where
  "validateAndResolveConfiguration resolve fs configPath config isCoverage =
    (let configRelPath = resolve configPath ''..'' in
     bindE (assertStringOrUndefinedParameter ''extensionDevelopmentPath''
              (getProp config ''extensionDevelopmentPath'')) (\<lambda>edp.
     let extensionDevelopmentPath' =
           resolve configRelPath (case edp of None \<Rightarrow> ''.'' | Some p \<Rightarrow> p) in
     bindE (assertStringOrUndefinedParameter ''userDataDir'' (getProp config ''userDataDir'')) (\<lambda>udd.
     let userDataDir' = (case udd of None \<Rightarrow> None | Some p \<Rightarrow> Some (resolve configRelPath p)) in
     bindE (assertStringOrUndefinedParameter ''vscodeVersion'' (getProp config ''vscodeVersion'')) (\<lambda>ver.
     bindE (assertStringArrayOrUndefinedParameter ''uninstallExtensionIDs''
              (getProp config ''uninstallExtensionIDs'')) (\<lambda>unin.
     bindE (assertStringArrayOrUndefinedParameter ''disabledExtensionIDs''
              (getProp config ''disabledExtensionIDs'')) (\<lambda>dis.
     bindE (assertStringArrayOrUndefinedParameter ''additionalExtensionFolders''
              (getProp config ''additionalExtensionFolders'')) (\<lambda>aef.
     let additionalExtensionFolders' =
           (case aef of None \<Rightarrow> None | Some ps \<Rightarrow> Some (map (resolve configRelPath) ps)) in
     bindE (assertStringOrUndefinedParameter ''mochaConfigPath'' (getProp config ''mochaConfigPath''))
       (\<lambda>mcp.
     case mcp of
       None \<Rightarrow> Inl (Error ''Configuration error: mochaConfigPath must be defined'')
     | Some m \<Rightarrow>
     let mochaConfigPath' = resolve configRelPath m in
     bindE (validateNycConfigPath resolve isCoverage config configRelPath) (\<lambda>nycConfigPath'.
     bindE (assertStringOrUndefinedParameter ''workspacePath'' (getProp config ''workspacePath''))
       (\<lambda>wp.
     let workspacePath' =
           resolve configRelPath (case wp of None \<Rightarrow> ''test.code-workspace'' | Some p \<Rightarrow> p);
         isWorkspaceFile = endsWith workspacePath' ''.code-workspace'' in
     if \<not> isWorkspaceFile \<and>
        (\<not> pathExists fs workspacePath' \<or> \<not> isDirectory fs workspacePath') then
       Inl (Error (''Configuration error: workspacePath must end with .code-workspace ''
                   @ ''or be an existing folder''))
     else
     bindE (validateInitWorkspace fs config isWorkspaceFile workspacePath') (\<lambda>initWorkspace'.
     let disableAllExtensionsDefault = isEmpty additionalExtensionFolders' in
     case getProp config ''disableAllExtensions'' of
       JUndefined \<Rightarrow>
         Inr \<lparr> extensionDevelopmentPath = extensionDevelopmentPath',
               workspacePath = workspacePath',
               initWorkspace = initWorkspace',
               mochaConfigPath = mochaConfigPath',
               nycConfigPath = nycConfigPath',
               userDataDir = userDataDir',
               vscodeVersion = ver,
               additionalExtensionFolders = additionalExtensionFolders',
               uninstallExtensionIDs = unin,
               disabledExtensionIDs = dis,
               disableAllExtensions = disableAllExtensionsDefault \<rparr>
     | JBool b \<Rightarrow>
         Inr \<lparr> extensionDevelopmentPath = extensionDevelopmentPath',
               workspacePath = workspacePath',
               initWorkspace = initWorkspace',
               mochaConfigPath = mochaConfigPath',
               nycConfigPath = nycConfigPath',
               userDataDir = userDataDir',
               vscodeVersion = ver,
               additionalExtensionFolders = additionalExtensionFolders',
               uninstallExtensionIDs = unin,
               disabledExtensionIDs = dis,
               disableAllExtensions = b \<rparr>
     | _ \<Rightarrow> Inl (Error ''Configuration error: disableAllExtensions must be a boolean'')
     )))))))))))"

section \<open>Node's POSIX path functions\<close>

text \<open>
  \<^verbatim>\<open>path.resolve\<close>, \<^verbatim>\<open>path.normalize\<close> and \<^verbatim>\<open>path.join\<close> belong to Node.js, not to
  vscode-test-cli. Their POSIX variants are modelled after Node's \<^verbatim>\<open>lib/path.js\<close>, so that
  the resolver's use of \<^verbatim>\<open>resolve\<close> can be compared with \<^verbatim>\<open>join\<close>. The process working
  directory, which \<^verbatim>\<open>resolve\<close> reads when its arguments are all relative, is the explicit
  argument \<open>cwd\<close>.
\<close>

fun splitOn :: "char \<Rightarrow> string \<Rightarrow> string list" where
  "splitOn c [] = [[]]"
| "splitOn c (x # xs) =
     (if x = c then [] # splitOn c xs
      else (case splitOn c xs of [] \<Rightarrow> [[x]] | seg # segs \<Rightarrow> (x # seg) # segs))"

fun joinSegments :: "string list \<Rightarrow> string" where
  "joinSegments [] = []"
| "joinSegments [s] = s"
| "joinSegments (s # t # ss) = s @ ''/'' @ joinSegments (t # ss)"

text \<open>
  \<^verbatim>\<open>normalizeString\<close> walks the path one segment at a time and keeps the segments of its
  result: an empty segment and \<^verbatim>\<open>.\<close> are skipped, \<^verbatim>\<open>..\<close> removes the last kept segment
  unless there is none or it is \<^verbatim>\<open>..\<close> itself, in which case \<^verbatim>\<open>..\<close> is kept when
  \<open>allowAboveRoot\<close> holds and dropped otherwise.
\<close>

fun normalizeSegments :: "bool \<Rightarrow> string list \<Rightarrow> string list \<Rightarrow> string list" where
  "normalizeSegments allowAboveRoot res [] = res"
| "normalizeSegments allowAboveRoot res (seg # segs) =
     (if seg = [] \<or> seg = ''.'' then normalizeSegments allowAboveRoot res segs
      else if seg = ''..'' then
        (if res \<noteq> [] \<and> last res \<noteq> ''..'' then
           normalizeSegments allowAboveRoot (butlast res) segs
         else if allowAboveRoot then normalizeSegments allowAboveRoot (res @ [''..'']) segs
         else normalizeSegments allowAboveRoot res segs)
      else normalizeSegments allowAboveRoot (res @ [seg]) segs)"

definition normalizeString :: "string \<Rightarrow> bool \<Rightarrow> string" where
  "normalizeString path allowAboveRoot =
     joinSegments (normalizeSegments allowAboveRoot [] (splitOn CHR ''/'' path))"

text \<open>
  The loop of \<^verbatim>\<open>resolve\<close>: from the last argument to the first and then the working
  directory, skipping empty strings, until an absolute path has been prepended.
\<close>

fun resolveLoop :: "string list \<Rightarrow> string \<Rightarrow> string \<times> bool" where
  "resolveLoop [] resolvedPath = (resolvedPath, False)"
| "resolveLoop (path # paths) resolvedPath =
     (if path = [] then resolveLoop paths resolvedPath
      else if hd path = CHR ''/'' then (path @ ''/'' @ resolvedPath, True)
      else resolveLoop paths (path @ ''/'' @ resolvedPath))"

definition posix_resolve :: "string \<Rightarrow> string list \<Rightarrow> string" where
  "posix_resolve cwd args =
     (case resolveLoop (rev args @ [cwd]) [] of
        (resolvedPath, resolvedAbsolute) \<Rightarrow>
          (let normalized = normalizeString resolvedPath (\<not> resolvedAbsolute) in
           if resolvedAbsolute then ''/'' @ normalized
           else if normalized \<noteq> [] then normalized else ''.''))"

definition posix_normalize :: "string \<Rightarrow> string" where
  "posix_normalize path =
     (if path = [] then ''.''
      else
        (let isAbsolute = (hd path = CHR ''/'');
             trailingSeparator = (last path = CHR ''/'');
             normalized = normalizeString path (\<not> isAbsolute) in
         if normalized = [] then
           (if isAbsolute then ''/'' else if trailingSeparator then ''./'' else ''.'')
         else
           (let withSeparator = (if trailingSeparator then normalized @ ''/'' else normalized) in
            if isAbsolute then ''/'' @ withSeparator else withSeparator)))"

definition posix_join :: "string list \<Rightarrow> string" where
  "posix_join args =
     (let joined = joinSegments (filter (\<lambda>arg. arg \<noteq> []) args) in
      if joined = [] then ''.'' else posix_normalize joined)"

text \<open>The two-argument calls the resolver makes.\<close>

definition resolve2 :: "string \<Rightarrow> string \<Rightarrow> string \<Rightarrow> string" where
  "resolve2 cwd a b = posix_resolve cwd [a, b]"

definition join2 :: "string \<Rightarrow> string \<Rightarrow> string" where
  "join2 a b = posix_join [a, b]"


section \<open>Extension provisioning and the host test launcher\<close>

text \<open>
  The launcher talks to the outside world through library calls. Each call that starts a
  process, changes the file system or prints is recorded as an event, in call order; what
  the call returns is given by the environment.
\<close>

record invocation =
  command :: string
  arguments :: "string list"
  stdioInherit :: bool

record spawn_result =
  stdout :: string
  stderr :: "string option"

record run_options =
  optVscodeExecutablePath :: string
  optExtensionDevelopmentPath :: string
  optExtensionTestsPath :: string
  optLaunchArgs :: "string list"
  optExtensionTestsEnv :: "string \<rightharpoonup> string"

datatype event =
    Download "string option"
  | Spawn invocation
  | Mkdirs string
  | WriteJson string jsval
  | RunTests run_options
  | Unlink string
  | ConsoleLog string
  | ConsoleError string "error option"

record host_env =
  pathResolve :: "string \<Rightarrow> string \<Rightarrow> string"
  pathJoin :: "string \<Rightarrow> string \<Rightarrow> string"
  pathDirname :: "string \<Rightarrow> string"
  platform :: string
  moduleDir :: string
  files :: filesystem
  downloadAndUnzipVSCode :: "string option \<Rightarrow> error + string"
  resolveCliPathFromVSCodeExecutablePath :: "string \<Rightarrow> string"
  spawnSync :: "invocation \<Rightarrow> spawn_result"
  mkdirs :: "string \<Rightarrow> error option"
  writeJson :: "string \<Rightarrow> jsval \<Rightarrow> error option"
  runTests :: "run_options \<Rightarrow> error option"
  unlink :: "string \<Rightarrow> error option"

text \<open>
  The names of the environment variables are defined in the module \<^verbatim>\<open>./constants\<close>; the
  values are the ones the test suites of the package spell out.
\<close>

definition ENV_VAR_MOCHA_CWD :: string where
  "ENV_VAR_MOCHA_CWD = ''VSCODE_TEST_CLI_MOCHA_CWD''"

definition ENV_VAR_MOCHA_CONFIG_PATH :: string where
  "ENV_VAR_MOCHA_CONFIG_PATH = ''VSCODE_TEST_CLI_MOCHA_CONFIG_PATH''"

definition ENV_VAR_NYC_CWD :: string where
  "ENV_VAR_NYC_CWD = ''VSCODE_TEST_CLI_NYC_CWD''"

definition ENV_VAR_NYC_CONFIG_PATH :: string where
  "ENV_VAR_NYC_CONFIG_PATH = ''VSCODE_TEST_CLI_NYC_CONFIG_PATH''"

definition ENV_VAR_BASE_TEST_PATH :: string where
  "ENV_VAR_BASE_TEST_PATH = ''VSCODE_TEST_CLI_BASE_TEST_PATH''"

definition USER_DATA_DIR_PARAM :: string where
  "USER_DATA_DIR_PARAM = ''--user-data-dir''"

text \<open>
  \<^verbatim>\<open>readdir\<close> lists a directory and fails on anything else, with the message of Node's
  system error (the path in single quotes).
\<close>

definition readdir :: "filesystem \<Rightarrow> string \<Rightarrow> error + string list" where
  "readdir fs p =
     (case fs p of
        Some (Directory entries) \<Rightarrow> Inr entries
      | Some File \<Rightarrow>
          Inl (Error (''ENOTDIR: not a directory, scandir '' @ [CHR 0x27] @ p @ [CHR 0x27]))
      | None \<Rightarrow>
          Inl (Error (''ENOENT: no such file or directory, scandir ''
                      @ [CHR 0x27] @ p @ [CHR 0x27])))"

definition isUpperCaseLetter :: "char \<Rightarrow> bool" where
  "isUpperCaseLetter c = (65 \<le> (of_char c :: nat) \<and> (of_char c :: nat) \<le> 90)"

definition toLowerCase :: "char \<Rightarrow> char" where
  "toLowerCase c = (if isUpperCaseLetter c then char_of ((of_char c :: nat) + 32) else c)"

definition toLowerDriveLetter :: "string \<Rightarrow> string \<Rightarrow> string" where
  "toLowerDriveLetter processPlatform path =
     (case path of
        c # d # rest \<Rightarrow>
          (if processPlatform = ''win32'' \<and> isUpperCaseLetter c \<and> d = CHR '':''
           then toLowerCase c # d # rest else path)
      | _ \<Rightarrow> path)"

fun getInstallArgsFromInstallationFolders :: "host_env \<Rightarrow> string list \<Rightarrow> error + string list" where
  "getInstallArgsFromInstallationFolders env [] = Inr []"
| "getInstallArgsFromInstallationFolders env (vsixFolder # folders) =
     (if \<not> pathExists (files env) vsixFolder then
        Inl (Error (''Folder '' @ vsixFolder @ '' which contains *.vsix dependencies does not exist''))
      else
        bindE (readdir (files env) vsixFolder) (\<lambda>entries.
        let vsixFiles = filter (\<lambda>fileName. endsWith fileName ''.vsix'') entries in
        if vsixFiles = [] then
          Inl (Error (''Could not find *.vsix files in '' @ vsixFolder))
        else
          bindE (getInstallArgsFromInstallationFolders env folders) (\<lambda>installArgs.
          Inr (concat (map (\<lambda>vsixFile. [''--install-extension'', pathJoin env vsixFolder vsixFile])
                         vsixFiles) @ installArgs))))"

text \<open>
  \<^verbatim>\<open>installExtensions\<close> returns the error it throws, if any, and the events it caused.
  The options \<^verbatim>\<open>encoding\<close> and \<^verbatim>\<open>env\<close> of \<^verbatim>\<open>spawnSync\<close> are the same in every call and are
  left out of an invocation; \<open>stdioInherit\<close> tells whether the call passes
  \<^verbatim>\<open>stdio: "inherit"\<close>.
\<close>

definition installExtensions ::
  "host_env \<Rightarrow> string \<Rightarrow> string option \<Rightarrow> string list option \<Rightarrow> string list option
     \<Rightarrow> error option \<times> event list" where
  "installExtensions env vscodeExe userDataDirOpt uninstallIDs installExtensionFolders =
     (if (installExtensionFolders = None \<or> installExtensionFolders = Some []) \<and>
         (uninstallIDs = None \<or> uninstallIDs = Some []) then (None, [])
      else
        (let uninstallExtensionIDsArray = (case uninstallIDs of None \<Rightarrow> [] | Some ids \<Rightarrow> ids);
             uninstallArgs0 =
               concat (map (\<lambda>extensionID. [''--uninstall-extension'', extensionID])
                         uninstallExtensionIDsArray);
             installExtensionFoldersArray =
               (case installExtensionFolders of None \<Rightarrow> [] | Some fs \<Rightarrow> fs) in
         case getInstallArgsFromInstallationFolders env installExtensionFoldersArray of
           Inl e \<Rightarrow> (Some e, [])
         | Inr installArgs0 \<Rightarrow>
             (let userDataArgs =
                    (case userDataDirOpt of None \<Rightarrow> [] | Some d \<Rightarrow> [USER_DATA_DIR_PARAM, d]);
                  installArgs = installArgs0 @ [''--force''] @ userDataArgs;
                  uninstallArgs = uninstallArgs0 @ [''--force''] @ userDataArgs;
                  cliPath = resolveCliPathFromVSCodeExecutablePath env vscodeExe;
                  uninstallEvents =
                    (if uninstallExtensionIDsArray \<noteq> [] then
                       [Spawn \<lparr> command = cliPath, arguments = uninstallArgs,
                                stdioInherit = True \<rparr>]
                     else []);
                  installEvents =
                    (if installExtensionFoldersArray \<noteq> [] then
                       (let firstInstall = \<lparr> command = cliPath, arguments = installArgs,
                                               stdioInherit = False \<rparr>;
                            installResult = spawnSync env firstInstall in
                        [Spawn firstInstall,
                         ConsoleLog (stdout installResult),
                         ConsoleError (case stderr installResult of
                                         None \<Rightarrow> ''undefined'' | Some text \<Rightarrow> text) None]
                        @ (case stderr installResult of
                             None \<Rightarrow> []
                           | Some text \<Rightarrow>
                               (if stringIncludes text ''Failed'' \<and> stringIncludes text ''restart''
                                then [ConsoleLog ''Retrying installation...'',
                                      Spawn \<lparr> command = cliPath, arguments = installArgs,
                                              stdioInherit = True \<rparr>]
                                else [])))
                     else [])
              in (None, uninstallEvents @ installEvents))))"

text \<open>The empty workspace descriptor \<^verbatim>\<open>{ folders: [] }\<close>.\<close>

definition emptyWorkspace :: jsval where
  "emptyWorkspace = JObj [(''folders'', JArr [])]"

text \<open>
  The argument \<^verbatim>\<open>runVSCodeTests\<close> builds for \<^verbatim>\<open>runTests\<close>: the environment variables for
  the code that runs inside the host, the entry point, and the launch arguments. These
  are pure computations on the configuration; the source interleaves them with the
  effects of the \<^verbatim>\<open>try\<close> block below. With coverage, \<^verbatim>\<open>config.nycConfigPath!\<close> is stored
  as it is, \<^verbatim>\<open>undefined\<close> included.
\<close>

definition launchOptions ::
  "host_env \<Rightarrow> bool \<Rightarrow> ResolvedConfiguration \<Rightarrow> string \<Rightarrow> run_options" where
  "launchOptions env isCoverage config vscodeExe =
     (let testsCwd = toLowerDriveLetter (platform env) (extensionDevelopmentPath config);
          env0 = [ENV_VAR_MOCHA_CWD \<mapsto> testsCwd,
                  ENV_VAR_MOCHA_CONFIG_PATH \<mapsto> mochaConfigPath config];
          env1 = (if isCoverage then
                    (env0(ENV_VAR_NYC_CWD \<mapsto> testsCwd))
                      (ENV_VAR_NYC_CONFIG_PATH := nycConfigPath config)
                  else env0);
          mochaTestsPath = pathResolve env (moduleDir env) ''mocha-tests'';
          extensionTestsEnv =
            (if isCoverage then env1(ENV_VAR_BASE_TEST_PATH \<mapsto> mochaTestsPath) else env1);
          extensionTestsPath =
            (if isCoverage then pathResolve env (moduleDir env) ''nyc-coverage''
             else mochaTestsPath);
          launchArgs =
            [workspacePath config]
            @ (case userDataDir config of None \<Rightarrow> [] | Some d \<Rightarrow> [USER_DATA_DIR_PARAM, d])
            @ (case disabledExtensionIDs config of
                 None \<Rightarrow> []
               | Some ids \<Rightarrow>
                   concat (map (\<lambda>extensionID. [''--disable-extension'', extensionID]) ids))
            @ (if disableAllExtensions config then [''--disable-extensions''] else [])
      in \<lparr> optVscodeExecutablePath = vscodeExe,
           optExtensionDevelopmentPath = extensionDevelopmentPath config,
           optExtensionTestsPath = extensionTestsPath,
           optLaunchArgs = launchArgs,
           optExtensionTestsEnv = extensionTestsEnv \<rparr>)"

text \<open>
  The \<^verbatim>\<open>try\<close> block of \<^verbatim>\<open>runVSCodeTests\<close>: the error it ends with, if any, the value of
  \<^verbatim>\<open>workspaceFileToDelete\<close> at that point, and the events so far.
\<close>

definition runVSCodeTestsTry ::
  "host_env \<Rightarrow> bool \<Rightarrow> ResolvedConfiguration \<Rightarrow> error option \<times> string option \<times> event list" where
  "runVSCodeTestsTry env isCoverage config =
     (case downloadAndUnzipVSCode env (vscodeVersion config) of
        Inl e \<Rightarrow> (Some e, None, [Download (vscodeVersion config)])
      | Inr vscodeExe \<Rightarrow>
          (case installExtensions env vscodeExe (userDataDir config)
                  (uninstallExtensionIDs config) (additionalExtensionFolders config) of
             (Some e, installTrace) \<Rightarrow>
               (Some e, None, Download (vscodeVersion config) # installTrace)
           | (None, installTrace) \<Rightarrow>
               (let before = Download (vscodeVersion config) # installTrace;
                    parentDir = pathDirname env (workspacePath config);
                    options = launchOptions env isCoverage config vscodeExe
                in
                if initWorkspace config then
                  (case mkdirs env parentDir of
                     Some e \<Rightarrow> (Some e, None, before @ [Mkdirs parentDir])
                   | None \<Rightarrow>
                       (case writeJson env (workspacePath config) emptyWorkspace of
                          Some e \<Rightarrow>
                            (Some e, None,
                             before @ [Mkdirs parentDir,
                                       WriteJson (workspacePath config) emptyWorkspace])
                        | None \<Rightarrow>
                            (runTests env options, Some (workspacePath config),
                             before @ [Mkdirs parentDir,
                                       WriteJson (workspacePath config) emptyWorkspace,
                                       RunTests options])))
                else (runTests env options, None, before @ [RunTests options]))))"

text \<open>
  \<^verbatim>\<open>runVSCodeTests\<close>: the \<^verbatim>\<open>try\<close> block followed by the \<^verbatim>\<open>finally\<close> block. The result is
  the error the returned promise rejects with (\<open>None\<close> when it resolves) and all events.
\<close>

definition runVSCodeTests ::
  "host_env \<Rightarrow> bool \<Rightarrow> ResolvedConfiguration \<Rightarrow> error option \<times> event list" where
  "runVSCodeTests env isCoverage config =
     (case runVSCodeTestsTry env isCoverage config of
        (outcome, workspaceFileToDelete, trace) \<Rightarrow>
          (case workspaceFileToDelete of
             None \<Rightarrow> (outcome, trace)
           | Some file \<Rightarrow>
               (case unlink env file of
                  None \<Rightarrow> (outcome, trace @ [Unlink file])
                | Some e \<Rightarrow>
                    (outcome,
                     trace @ [Unlink file,
                              ConsoleError (''Could not delete workspace file at path '' @ file)
                                (Some e)]))))"

section \<open>The in-host test executor\<close>

text \<open>
  What \<^verbatim>\<open>mocha.run\<close> does with the callback it is given: it throws before running, or it
  calls back with the number of failed tests, or it never calls back.
\<close>

datatype run_outcome = RunThrows error | RunReports nat | RunNeverReports

datatype promise_state = Resolved | Rejected error | Pending

datatype mocha_event =
    Required string
  | NewMocha jsrecord
  | Glob string string
  | AddFile string
  | MochaRun
  | LoggedError string

record mocha_env =
  processEnv :: "string \<rightharpoonup> string"
  requireModule :: "string \<Rightarrow> error + jsrecord"
  valueToString :: "jsval \<Rightarrow> string"
  resolvePath :: "string \<Rightarrow> string \<Rightarrow> string"
  newMocha :: "jsrecord \<Rightarrow> error option"
  globFiles :: "string \<Rightarrow> string \<Rightarrow> error + string list"
  mochaRun :: "jsrecord \<Rightarrow> string list \<Rightarrow> run_outcome"

text \<open>The decimal digits of a count, as a template literal prints it.\<close>

fun numberToString :: "nat \<Rightarrow> string" where
  "numberToString n =
     (if n < 10 then [char_of (48 + n)]
      else numberToString (n div 10) @ [char_of (48 + n mod 10)])"

declare numberToString.simps [simp del]

text \<open>
  Reading a message back: a decimal digit, and the number a string of decimal digits
  denotes. They state what it means for a message to show a count.
\<close>

definition isDecimalDigit :: "char \<Rightarrow> bool" where
  "isDecimalDigit c = (48 \<le> (of_char c :: nat) \<and> (of_char c :: nat) \<le> 57)"

definition decimalValue :: "string \<Rightarrow> nat" where
  "decimalValue s = foldl (\<lambda>acc c. 10 * acc + ((of_char c :: nat) - 48)) 0 s"

definition handleSpec :: "mocha_env \<Rightarrow> jsrecord \<Rightarrow> error + (string \<times> jsrecord)" where
  "handleSpec env config =
     (case getProp config ''spec'' of
        JStr spec \<Rightarrow> Inr (spec, config(''spec'' := None))
      | spec \<Rightarrow>
          Inl (Error (''spec property in Mocha configuration must be a string. Unexpected value: ''
                      @ valueToString env spec)))"

fun requireAll :: "mocha_env \<Rightarrow> jsval list \<Rightarrow> error option \<times> mocha_event list" where
  "requireAll env [] = (None, [])"
| "requireAll env (JStr module # modules) =
     (case requireModule env module of
        Inl e \<Rightarrow> (Some e, [Required module])
      | Inr _ \<Rightarrow>
          (case requireAll env modules of (outcome, trace) \<Rightarrow> (outcome, Required module # trace)))"
| "requireAll env (module # modules) =
     (Some (Error (''require property in Mocha configuration must be a string or array of strings. ''
                   @ ''Unexpected value: '' @ valueToString env module)), [])"

text \<open>
  \<^verbatim>\<open>handleRequire\<close> removes the property from the configuration object and loads the
  modules; it returns the error it throws, if any, the configuration object as it leaves
  it, and the events.
\<close>

definition handleRequire :: "mocha_env \<Rightarrow> jsrecord \<Rightarrow> error option \<times> jsrecord \<times> mocha_event list" where
  "handleRequire env config =
     (let requireModules0 = getProp config ''require'';
          config' = config(''require'' := None);
          requireModules = (case requireModules0 of
                              JStr module \<Rightarrow> JArr [JStr module] | other \<Rightarrow> other) in
      case requireModules of
        JArr modules \<Rightarrow>
          (case requireAll env modules of (outcome, trace) \<Rightarrow> (outcome, config', trace))
      | _ \<Rightarrow> (None, config', []))"

definition runMocha ::
  "mocha_env \<Rightarrow> string \<Rightarrow> jsrecord \<Rightarrow> string \<Rightarrow> promise_state \<times> mocha_event list" where
  "runMocha env globPattern config mochaCwd =
     (case newMocha env config of
        Some e \<Rightarrow> (Rejected e, [NewMocha config])
      | None \<Rightarrow>
          (case globFiles env globPattern mochaCwd of
             Inl err \<Rightarrow> (Rejected err, [NewMocha config, Glob globPattern mochaCwd])
           | Inr found \<Rightarrow>
               (let added = map (resolvePath env mochaCwd) found;
                    trace = [NewMocha config, Glob globPattern mochaCwd]
                            @ map AddFile added @ [MochaRun] in
                case mochaRun env config added of
                  RunThrows err \<Rightarrow> (Rejected err, trace)
                | RunReports failures \<Rightarrow>
                    (if failures > 0 then
                       (Rejected (Error (numberToString failures @ '' tests failed.'')), trace)
                     else (Resolved, trace))
                | RunNeverReports \<Rightarrow> (Pending, trace))))"

text \<open>
  The \<^verbatim>\<open>try\<close> block of \<^verbatim>\<open>run\<close>, the entry point: the state of the returned promise and
  the events.
\<close>

definition runInner :: "mocha_env \<Rightarrow> promise_state \<times> mocha_event list" where
  "runInner env =
     (case (processEnv env ENV_VAR_MOCHA_CONFIG_PATH, processEnv env ENV_VAR_MOCHA_CWD) of
        (Some configPath, Some mochaCwd) \<Rightarrow>
          (case requireModule env configPath of
             Inl e \<Rightarrow> (Rejected e, [])
           | Inr config \<Rightarrow>
               (case handleSpec env config of
                  Inl e \<Rightarrow> (Rejected e, [])
                | Inr (globPattern, config1) \<Rightarrow>
                    (case handleRequire env config1 of
                       (Some e, config2, trace) \<Rightarrow> (Rejected e, trace)
                     | (None, config2, trace) \<Rightarrow>
                         (case runMocha env globPattern config2 mochaCwd of
                            (state, mochaTrace) \<Rightarrow> (state, trace @ mochaTrace)))))
      | _ \<Rightarrow>
          (Rejected (Error (''The following environment variables must be defined for mocha tests: ''
                            @ ENV_VAR_MOCHA_CWD @ '', '' @ ENV_VAR_MOCHA_CONFIG_PATH)), []))"

text \<open>
  \<^verbatim>\<open>run\<close>: the \<^verbatim>\<open>catch\<close> block prints the message of the error and throws it again.
\<close>

definition run :: "mocha_env \<Rightarrow> promise_state \<times> mocha_event list" where
  "run env =
     (case runInner env of
        (Rejected e, trace) \<Rightarrow> (Rejected e, trace @ [LoggedError (message e)])
      | (state, trace) \<Rightarrow> (state, trace))"

section \<open>Auxiliary predicates and sample inputs\<close>

text \<open>The types the resolver accepts for a field, as predicates on the raw value.\<close>

definition isStringOrUndefined :: "jsval \<Rightarrow> bool" where
  "isStringOrUndefined v = (case v of JUndefined \<Rightarrow> True | JStr _ \<Rightarrow> True | _ \<Rightarrow> False)"

definition isStringValue :: "jsval \<Rightarrow> bool" where
  "isStringValue v = (case v of JStr _ \<Rightarrow> True | _ \<Rightarrow> False)"

definition isStringArrayOrUndefined :: "jsval \<Rightarrow> bool" where
  "isStringArrayOrUndefined v =
     (case v of JUndefined \<Rightarrow> True | JArr vs \<Rightarrow> list_all isStringValue vs | _ \<Rightarrow> False)"

text \<open>The six fields the resolver validates before it looks at \<^verbatim>\<open>mochaConfigPath\<close>.\<close>

definition wellTypedBeforeMochaConfigPath :: "jsrecord \<Rightarrow> bool" where
  "wellTypedBeforeMochaConfigPath config =
     (isStringOrUndefined (getProp config ''extensionDevelopmentPath'') \<and>
      isStringOrUndefined (getProp config ''userDataDir'') \<and>
      isStringOrUndefined (getProp config ''vscodeVersion'') \<and>
      isStringArrayOrUndefined (getProp config ''uninstallExtensionIDs'') \<and>
      isStringArrayOrUndefined (getProp config ''disabledExtensionIDs'') \<and>
      isStringArrayOrUndefined (getProp config ''additionalExtensionFolders''))"

text \<open>The invocations among the events, in order.\<close>

fun spawnCalls :: "event list \<Rightarrow> invocation list" where
  "spawnCalls [] = []"
| "spawnCalls (Spawn call # events) = call # spawnCalls events"
| "spawnCalls (_ # events) = spawnCalls events"

text \<open>A project at \<^verbatim>\<open>/proj\<close> with two directories, one of them named like a workspace file.\<close>

definition sampleFs :: filesystem where
  "sampleFs = [''/proj/ws'' \<mapsto> Directory [],
               ''/proj/dir.code-workspace'' \<mapsto> Directory [],
               ''/proj/deps'' \<mapsto> Directory [''a.vsix'', ''notes.txt'']]"

definition minimalConfig :: jsrecord where
  "minimalConfig = [''mochaConfigPath'' \<mapsto> JStr ''mocha.config.js'']"

text \<open>Every error the resolver can throw, in the order of its checks.\<close>

definition configurationErrors :: "bool \<Rightarrow> error list" where
  "configurationErrors isCoverage =
     [Error ''Configuration error: extensionDevelopmentPath must be a string'',
      Error ''Configuration error: userDataDir must be a string'',
      Error ''Configuration error: vscodeVersion must be a string'',
      Error ''Configuration error: uninstallExtensionIDs must be a string array'',
      Error ''Configuration error: disabledExtensionIDs must be a string array'',
      Error ''Configuration error: additionalExtensionFolders must be a string array'',
      Error ''Configuration error: mochaConfigPath must be a string'',
      Error ''Configuration error: mochaConfigPath must be defined'']
     @ (if isCoverage then
          [Error ''Configuration error: nycConfigPath must be a string'',
           Error ''Configuration error: nycConfigPath must be defined when coverage is enabled'']
        else [])
     @ [Error ''Configuration error: workspacePath must be a string'',
        Error (''Configuration error: workspacePath must end with .code-workspace ''
               @ ''or be an existing folder''),
        Error ''Configuration error: initWorkspace must be a boolean'',
        Error (''Configuration error: initWorkspace can be true only ''
               @ ''for a workspace file and not a folder''),
        Error ''Configuration error: disableAllExtensions must be a boolean'']"



text \<open>
  The steps of \<^verbatim>\<open>runVSCodeTests\<close> before the workspace descriptor is written all succeed:
  the download, the provisioning of extensions, the creation of the parent directory.
\<close>

definition reachesWorkspaceWrite :: "host_env \<Rightarrow> ResolvedConfiguration \<Rightarrow> bool" where
  "reachesWorkspaceWrite env config =
     (case downloadAndUnzipVSCode env (vscodeVersion config) of
        Inl e \<Rightarrow> False
      | Inr vscodeExe \<Rightarrow>
          fst (installExtensions env vscodeExe (userDataDir config)
                 (uninstallExtensionIDs config) (additionalExtensionFolders config)) = None \<and>
          mkdirs env (pathDirname env (workspacePath config)) = None)"

text \<open>
  A host environment for the examples: the download and every file operation succeed,
  the host run fails, and the first (piped) install prints the signature of the known
  transient failure.
\<close>

definition sampleHostEnv :: host_env where
  "sampleHostEnv =
     \<lparr> pathResolve = resolve2 ''/work'',
       pathJoin = join2,
       pathDirname = (\<lambda>p. ''/proj''),
       platform = ''linux'',
       moduleDir = ''/tool/dist/src'',
       files = sampleFs,
       downloadAndUnzipVSCode = (\<lambda>version. Inr ''/vscode/code''),
       resolveCliPathFromVSCodeExecutablePath = (\<lambda>exe. ''/vscode/bin/code''),
       spawnSync = (\<lambda>call.
          if stdioInherit call then \<lparr> stdout = [], stderr = None \<rparr>
          else \<lparr> stdout = [],
                 stderr = Some ''Please restart VS Code. Failed Installing Extensions'' \<rparr>),
       mkdirs = (\<lambda>p. None),
       writeJson = (\<lambda>p v. None),
       runTests = (\<lambda>options. Some (Error ''Failed'')),
       unlink = (\<lambda>p. None) \<rparr>"

definition sampleResolved :: ResolvedConfiguration where
  "sampleResolved =
     \<lparr> extensionDevelopmentPath = ''/proj'',
       workspacePath = ''/proj/test.code-workspace'',
       initWorkspace = True,
       mochaConfigPath = ''/proj/mocha.config.js'',
       nycConfigPath = None,
       userDataDir = None,
       vscodeVersion = None,
       additionalExtensionFolders = None,
       uninstallExtensionIDs = None,
       disabledExtensionIDs = None,
       disableAllExtensions = True \<rparr>"

text \<open>
  An environment of the in-host executor for the examples: the configuration module
  exports \<open>config\<close>, one test file is found and the runner reports \<open>failures\<close>.
\<close>

definition sampleMochaEnv :: "jsrecord \<Rightarrow> nat \<Rightarrow> mocha_env" where
  "sampleMochaEnv config failures =
     \<lparr> processEnv = [ENV_VAR_MOCHA_CWD \<mapsto> ''/ext'',
                      ENV_VAR_MOCHA_CONFIG_PATH \<mapsto> ''/ext/mocha.json''],
       requireModule = (\<lambda>p. if p = ''/ext/mocha.json'' then Inr config
                              else Inl (Error (''Cannot find module '' @ p))),
       valueToString = (\<lambda>v. case v of JStr s \<Rightarrow> s | _ \<Rightarrow> ''[value]''),
       resolvePath = resolve2 ''/ext'',
       newMocha = (\<lambda>options. None),
       globFiles = (\<lambda>globPattern cwd. Inr [''test/a.test.js'']),
       mochaRun = (\<lambda>options testFiles. RunReports failures) \<rparr>"

section \<open>Proofs: the configuration resolver\<close>

lemma bindE_Inl [simp]: "bindE (Inl e) f = Inl e"
  by (simp add: bindE_def)

lemma bindE_Inr [simp]: "bindE (Inr v) f = f v"
  by (simp add: bindE_def)

lemma assertString_Inr_iff:
  "assertStringOrUndefinedParameter name v = Inr x \<longleftrightarrow>
     (v = JUndefined \<and> x = None) \<or> (\<exists>s. v = JStr s \<and> x = Some s)"
  by (cases v) (auto simp: assertStringOrUndefinedParameter_def)

lemma assertString_Inl:
  "assertStringOrUndefinedParameter name v = Inl e \<Longrightarrow>
     e = Error (''Configuration error: '' @ name @ '' must be a string'')"
  by (cases v) (auto simp: assertStringOrUndefinedParameter_def)

lemma assertString_ok:
  "isStringOrUndefined v \<Longrightarrow> \<exists>x. assertStringOrUndefinedParameter name v = Inr x"
  by (cases v) (auto simp: assertStringOrUndefinedParameter_def isStringOrUndefined_def)

lemma stringValues_Inl:
  "stringValues name vs = Inl e \<Longrightarrow>
     e = Error (''Configuration error: '' @ name @ '' must be a string array'')"
proof (induction name vs rule: stringValues.induct)
  case (2 name s vs)
  then show ?case by (cases "stringValues name vs") simp_all
qed simp_all

lemma stringValues_ok:
  "list_all isStringValue vs \<Longrightarrow> \<exists>ss. stringValues name vs = Inr ss"
proof (induction name vs rule: stringValues.induct)
  case (2 name s vs)
  then show ?case by auto
qed (simp_all add: isStringValue_def)

lemma stringValues_Nil_iff:
  "stringValues name vs = Inr ss \<Longrightarrow> ss = [] \<longleftrightarrow> vs = []"
proof (induction name vs arbitrary: ss rule: stringValues.induct)
  case (2 name s vs)
  then show ?case by (cases "stringValues name vs") auto
qed simp_all

lemma assertStringArray_Inl:
  "assertStringArrayOrUndefinedParameter name v = Inl e \<Longrightarrow>
     e = Error (''Configuration error: '' @ name @ '' must be a string array'')"
proof (cases v)
  case (JArr vs)
  assume "assertStringArrayOrUndefinedParameter name v = Inl e"
  with JArr have "stringValues name vs = Inl e"
    by (cases "stringValues name vs") (simp_all add: assertStringArrayOrUndefinedParameter_def)
  then show ?thesis by (rule stringValues_Inl)
qed (auto simp: assertStringArrayOrUndefinedParameter_def)

lemma assertStringArray_ok:
  "isStringArrayOrUndefined v \<Longrightarrow> \<exists>x. assertStringArrayOrUndefinedParameter name v = Inr x"
proof (cases v)
  case (JArr vs)
  assume "isStringArrayOrUndefined v"
  with JArr obtain ss where "stringValues name vs = Inr ss"
    using stringValues_ok [of vs name] by (auto simp: isStringArrayOrUndefined_def)
  with JArr show ?thesis by (simp add: assertStringArrayOrUndefinedParameter_def)
qed (auto simp: assertStringArrayOrUndefinedParameter_def isStringArrayOrUndefined_def)

lemma assertStringArray_empty_iff:
  assumes "assertStringArrayOrUndefinedParameter name v = Inr x"
  shows "(x = None \<or> x = Some []) \<longleftrightarrow> (v = JUndefined \<or> v = JArr [])"
proof (cases v)
  case (JArr vs)
  with assms obtain ss where ss: "stringValues name vs = Inr ss" "x = Some ss"
    by (cases "stringValues name vs") (auto simp: assertStringArrayOrUndefinedParameter_def)
  with JArr stringValues_Nil_iff [OF ss(1)] show ?thesis by simp
qed (use assms in \<open>auto simp: assertStringArrayOrUndefinedParameter_def\<close>)

lemma validateNycConfigPath_Inl:
  "validateNycConfigPath resolve isCoverage config d = Inl e \<Longrightarrow>
     isCoverage \<and>
     (e = Error ''Configuration error: nycConfigPath must be a string'' \<or>
      e = Error ''Configuration error: nycConfigPath must be defined when coverage is enabled'')"
  by (cases "getProp config ''nycConfigPath''")
     (auto simp: validateNycConfigPath_def assertStringOrUndefinedParameter_def split: if_splits)

lemma validateInitWorkspace_Inl:
  "validateInitWorkspace fs config isFile w = Inl e \<Longrightarrow>
     e = Error ''Configuration error: initWorkspace must be a boolean'' \<or>
     e = Error (''Configuration error: initWorkspace can be true only ''
                @ ''for a workspace file and not a folder'')"
  by (cases "getProp config ''initWorkspace''")
     (auto simp: validateInitWorkspace_def split: if_splits)

lemma validateAndResolveConfiguration_InrE:
  assumes ok: "validateAndResolveConfiguration resolve fs configPath config isCoverage = Inr r"
  obtains edp udd ver unin dis aef m wp where
    "assertStringOrUndefinedParameter ''extensionDevelopmentPath''
       (getProp config ''extensionDevelopmentPath'') = Inr edp"
    "assertStringOrUndefinedParameter ''userDataDir'' (getProp config ''userDataDir'') = Inr udd"
    "assertStringOrUndefinedParameter ''vscodeVersion'' (getProp config ''vscodeVersion'') = Inr ver"
    "assertStringArrayOrUndefinedParameter ''uninstallExtensionIDs''
       (getProp config ''uninstallExtensionIDs'') = Inr unin"
    "assertStringArrayOrUndefinedParameter ''disabledExtensionIDs''
       (getProp config ''disabledExtensionIDs'') = Inr dis"
    "assertStringArrayOrUndefinedParameter ''additionalExtensionFolders''
       (getProp config ''additionalExtensionFolders'') = Inr aef"
    "assertStringOrUndefinedParameter ''mochaConfigPath'' (getProp config ''mochaConfigPath'')
       = Inr (Some m)"
    "validateNycConfigPath resolve isCoverage config (resolve configPath ''..'')
       = Inr (nycConfigPath r)"
    "assertStringOrUndefinedParameter ''workspacePath'' (getProp config ''workspacePath'') = Inr wp"
    "extensionDevelopmentPath r =
       resolve (resolve configPath ''..'') (case edp of None \<Rightarrow> ''.'' | Some p \<Rightarrow> p)"
    "userDataDir r =
       (case udd of None \<Rightarrow> None | Some p \<Rightarrow> Some (resolve (resolve configPath ''..'') p))"
    "vscodeVersion r = ver"
    "uninstallExtensionIDs r = unin"
    "disabledExtensionIDs r = dis"
    "additionalExtensionFolders r =
       (case aef of None \<Rightarrow> None
        | Some ps \<Rightarrow> Some (map (resolve (resolve configPath ''..'')) ps))"
    "mochaConfigPath r = resolve (resolve configPath ''..'') m"
    "workspacePath r =
       resolve (resolve configPath ''..'')
         (case wp of None \<Rightarrow> ''test.code-workspace'' | Some p \<Rightarrow> p)"
    "endsWith (workspacePath r) ''.code-workspace'' \<or>
       (pathExists fs (workspacePath r) \<and> isDirectory fs (workspacePath r))"
    "validateInitWorkspace fs config (endsWith (workspacePath r) ''.code-workspace'')
       (workspacePath r) = Inr (initWorkspace r)"
    "(getProp config ''disableAllExtensions'' = JUndefined \<and>
        disableAllExtensions r = isEmpty (additionalExtensionFolders r)) \<or>
     getProp config ''disableAllExtensions'' = JBool (disableAllExtensions r)"
proof -
  note d = validateAndResolveConfiguration_def Let_def
  obtain edp where 1: "assertStringOrUndefinedParameter ''extensionDevelopmentPath''
       (getProp config ''extensionDevelopmentPath'') = Inr edp"
    using ok by (cases "assertStringOrUndefinedParameter ''extensionDevelopmentPath''
       (getProp config ''extensionDevelopmentPath'')") (simp_all add: d)
  obtain udd where 2: "assertStringOrUndefinedParameter ''userDataDir''
       (getProp config ''userDataDir'') = Inr udd"
    using ok 1 by (cases "assertStringOrUndefinedParameter ''userDataDir''
       (getProp config ''userDataDir'')") (simp_all add: d)
  obtain ver where 3: "assertStringOrUndefinedParameter ''vscodeVersion''
       (getProp config ''vscodeVersion'') = Inr ver"
    using ok 1 2 by (cases "assertStringOrUndefinedParameter ''vscodeVersion''
       (getProp config ''vscodeVersion'')") (simp_all add: d)
  obtain unin where 4: "assertStringArrayOrUndefinedParameter ''uninstallExtensionIDs''
       (getProp config ''uninstallExtensionIDs'') = Inr unin"
    using ok 1 2 3 by (cases "assertStringArrayOrUndefinedParameter ''uninstallExtensionIDs''
       (getProp config ''uninstallExtensionIDs'')") (simp_all add: d)
  obtain dis where 5: "assertStringArrayOrUndefinedParameter ''disabledExtensionIDs''
       (getProp config ''disabledExtensionIDs'') = Inr dis"
    using ok 1 2 3 4 by (cases "assertStringArrayOrUndefinedParameter ''disabledExtensionIDs''
       (getProp config ''disabledExtensionIDs'')") (simp_all add: d)
  obtain aef where 6: "assertStringArrayOrUndefinedParameter ''additionalExtensionFolders''
       (getProp config ''additionalExtensionFolders'') = Inr aef"
    using ok 1 2 3 4 5
    by (cases "assertStringArrayOrUndefinedParameter ''additionalExtensionFolders''
       (getProp config ''additionalExtensionFolders'')") (simp_all add: d)
  obtain mcp where 7: "assertStringOrUndefinedParameter ''mochaConfigPath''
       (getProp config ''mochaConfigPath'') = Inr mcp"
    using ok 1 2 3 4 5 6 by (cases "assertStringOrUndefinedParameter ''mochaConfigPath''
       (getProp config ''mochaConfigPath'')") (simp_all add: d)
  obtain m where 8: "mcp = Some m"
    using ok 1 2 3 4 5 6 7 by (cases mcp) (simp_all add: d)
  obtain nyc where 9: "validateNycConfigPath resolve isCoverage config (resolve configPath ''..'')
       = Inr nyc"
    using ok 1 2 3 4 5 6 7 8
    by (cases "validateNycConfigPath resolve isCoverage config (resolve configPath ''..'')")
       (simp_all add: d)
  obtain wp where 10: "assertStringOrUndefinedParameter ''workspacePath''
       (getProp config ''workspacePath'') = Inr wp"
    using ok 1 2 3 4 5 6 7 8 9 by (cases "assertStringOrUndefinedParameter ''workspacePath''
       (getProp config ''workspacePath'')") (simp_all add: d)
  define w where "w = resolve (resolve configPath ''..'')
         (case wp of None \<Rightarrow> ''test.code-workspace'' | Some p \<Rightarrow> p)"
  have 11: "endsWith w ''.code-workspace'' \<or> (pathExists fs w \<and> isDirectory fs w)"
    using ok 1 2 3 4 5 6 7 8 9 10 unfolding w_def
    by (simp add: d split: if_splits)
  obtain iw where 12: "validateInitWorkspace fs config (endsWith w ''.code-workspace'') w = Inr iw"
    using ok 1 2 3 4 5 6 7 8 9 10 11 unfolding w_def
    by (cases "validateInitWorkspace fs config (endsWith (resolve (resolve configPath ''..'')
         (case wp of None \<Rightarrow> ''test.code-workspace'' | Some p \<Rightarrow> p)) ''.code-workspace'')
         (resolve (resolve configPath ''..'')
         (case wp of None \<Rightarrow> ''test.code-workspace'' | Some p \<Rightarrow> p))")
       (auto simp add: d split: if_splits)
  define base where "base b = \<lparr> extensionDevelopmentPath =
               resolve (resolve configPath ''..'') (case edp of None \<Rightarrow> ''.'' | Some p \<Rightarrow> p),
               workspacePath = w,
               initWorkspace = iw,
               mochaConfigPath = resolve (resolve configPath ''..'') m,
               nycConfigPath = nyc,
               userDataDir = (case udd of None \<Rightarrow> None
                  | Some p \<Rightarrow> Some (resolve (resolve configPath ''..'') p)),
               vscodeVersion = ver,
               additionalExtensionFolders = (case aef of None \<Rightarrow> None
                  | Some ps \<Rightarrow> Some (map (resolve (resolve configPath ''..'')) ps)),
               uninstallExtensionIDs = unin,
               disabledExtensionIDs = dis,
               disableAllExtensions = b \<rparr>" for b
  show thesis
  proof (cases "getProp config ''disableAllExtensions''")
    case JUndefined
    with ok 1 2 3 4 5 6 7 8 9 10 11 12 have "r = base (isEmpty (case aef of None \<Rightarrow> None
                  | Some ps \<Rightarrow> Some (map (resolve (resolve configPath ''..'')) ps)))"
      unfolding w_def base_def by (auto simp add: d split: if_splits)
    with 1 2 3 4 5 6 7 8 9 10 11 12 JUndefined show thesis
      by (intro that[of edp udd ver unin dis aef m wp]) (simp_all add: w_def base_def)
  next
    case (JBool b)
    with ok 1 2 3 4 5 6 7 8 9 10 11 12 have "r = base b"
      unfolding w_def base_def by (auto simp add: d split: if_splits)
    with 1 2 3 4 5 6 7 8 9 10 11 12 JBool show thesis
      by (intro that[of edp udd ver unin dis aef m wp]) (simp_all add: w_def base_def)
  qed (use ok 1 2 3 4 5 6 7 8 9 10 11 12 in \<open>auto simp add: d w_def split: if_splits\<close>)
qed

lemmas resolver_eval =
  validateAndResolveConfiguration_def assertStringOrUndefinedParameter_def
  assertStringArrayOrUndefinedParameter_def validateNycConfigPath_def validateInitWorkspace_def
  getProp_def isEmpty_def endsWith_def pathExists_def isDirectory_def
  suffix_to_prefix Let_def

lemmas posix_eval =
  resolve2_def join2_def posix_resolve_def posix_join_def posix_normalize_def normalizeString_def

lemma minimal_resolution:
  "validateAndResolveConfiguration (resolve2 ''/work'') sampleFs ''/proj/cfg.json'' minimalConfig False
   = Inr \<lparr> extensionDevelopmentPath = ''/proj'',
            workspacePath = ''/proj/test.code-workspace'',
            initWorkspace = True,
            mochaConfigPath = ''/proj/mocha.config.js'',
            nycConfigPath = None,
            userDataDir = None,
            vscodeVersion = None,
            additionalExtensionFolders = None,
            uninstallExtensionIDs = None,
            disabledExtensionIDs = None,
            disableAllExtensions = True \<rparr>"
  by (simp add: resolver_eval posix_eval minimalConfig_def sampleFs_def)

lemma resolver_errors:
  assumes bad: "validateAndResolveConfiguration resolve fs configPath config isCoverage = Inl e"
  shows "e \<in> set (configurationErrors isCoverage)"
proof (rule ccontr)
  assume np: "e \<notin> set (configurationErrors isCoverage)"
  note d = validateAndResolveConfiguration_def Let_def
  note c = configurationErrors_def
  obtain edp where 1: "assertStringOrUndefinedParameter ''extensionDevelopmentPath''
       (getProp config ''extensionDevelopmentPath'') = Inr edp"
    using bad np by (cases "assertStringOrUndefinedParameter ''extensionDevelopmentPath''
       (getProp config ''extensionDevelopmentPath'')")
      (auto simp: d c dest!: assertString_Inl)
  obtain udd where 2: "assertStringOrUndefinedParameter ''userDataDir''
       (getProp config ''userDataDir'') = Inr udd"
    using bad np 1 by (cases "assertStringOrUndefinedParameter ''userDataDir''
       (getProp config ''userDataDir'')") (auto simp: d c dest!: assertString_Inl)
  obtain ver where 3: "assertStringOrUndefinedParameter ''vscodeVersion''
       (getProp config ''vscodeVersion'') = Inr ver"
    using bad np 1 2 by (cases "assertStringOrUndefinedParameter ''vscodeVersion''
       (getProp config ''vscodeVersion'')") (auto simp: d c dest!: assertString_Inl)
  obtain unin where 4: "assertStringArrayOrUndefinedParameter ''uninstallExtensionIDs''
       (getProp config ''uninstallExtensionIDs'') = Inr unin"
    using bad np 1 2 3 by (cases "assertStringArrayOrUndefinedParameter ''uninstallExtensionIDs''
       (getProp config ''uninstallExtensionIDs'')") (auto simp: d c dest!: assertStringArray_Inl)
  obtain dis where 5: "assertStringArrayOrUndefinedParameter ''disabledExtensionIDs''
       (getProp config ''disabledExtensionIDs'') = Inr dis"
    using bad np 1 2 3 4 by (cases "assertStringArrayOrUndefinedParameter ''disabledExtensionIDs''
       (getProp config ''disabledExtensionIDs'')") (auto simp: d c dest!: assertStringArray_Inl)
  obtain aef where 6: "assertStringArrayOrUndefinedParameter ''additionalExtensionFolders''
       (getProp config ''additionalExtensionFolders'') = Inr aef"
    using bad np 1 2 3 4 5
    by (cases "assertStringArrayOrUndefinedParameter ''additionalExtensionFolders''
       (getProp config ''additionalExtensionFolders'')") (auto simp: d c dest!: assertStringArray_Inl)
  obtain mcp where 7: "assertStringOrUndefinedParameter ''mochaConfigPath''
       (getProp config ''mochaConfigPath'') = Inr mcp"
    using bad np 1 2 3 4 5 6 by (cases "assertStringOrUndefinedParameter ''mochaConfigPath''
       (getProp config ''mochaConfigPath'')") (auto simp: d c dest!: assertString_Inl)
  obtain m where 8: "mcp = Some m"
    using bad np 1 2 3 4 5 6 7 by (cases mcp) (auto simp: d c)
  obtain nyc where 9: "validateNycConfigPath resolve isCoverage config (resolve configPath ''..'')
       = Inr nyc"
    using bad np 1 2 3 4 5 6 7 8
    by (cases "validateNycConfigPath resolve isCoverage config (resolve configPath ''..'')")
       (auto simp: d c dest!: validateNycConfigPath_Inl)
  obtain wp where 10: "assertStringOrUndefinedParameter ''workspacePath''
       (getProp config ''workspacePath'') = Inr wp"
    using bad np 1 2 3 4 5 6 7 8 9 by (cases "assertStringOrUndefinedParameter ''workspacePath''
       (getProp config ''workspacePath'')") (auto simp: d c dest!: assertString_Inl)
  define w where "w = resolve (resolve configPath ''..'')
         (case wp of None \<Rightarrow> ''test.code-workspace'' | Some p \<Rightarrow> p)"
  have 11: "endsWith w ''.code-workspace'' \<or> (pathExists fs w \<and> isDirectory fs w)"
    using bad np 1 2 3 4 5 6 7 8 9 10 unfolding w_def
    by (auto simp: d c split: if_splits)
  obtain iw where 12: "validateInitWorkspace fs config (endsWith w ''.code-workspace'') w = Inr iw"
    using bad np 1 2 3 4 5 6 7 8 9 10 11 unfolding w_def
    by (cases "validateInitWorkspace fs config (endsWith (resolve (resolve configPath ''..'')
         (case wp of None \<Rightarrow> ''test.code-workspace'' | Some p \<Rightarrow> p)) ''.code-workspace'')
         (resolve (resolve configPath ''..'')
         (case wp of None \<Rightarrow> ''test.code-workspace'' | Some p \<Rightarrow> p))")
       (auto simp: d c split: if_splits dest!: validateInitWorkspace_Inl)
  show False
    using bad np 1 2 3 4 5 6 7 8 9 10 11 12 unfolding w_def
    by (cases "getProp config ''disableAllExtensions''") (auto simp: d c split: if_splits)
qed

lemma no_nyc_error_without_coverage:
  "e \<in> set (configurationErrors False) \<Longrightarrow> \<not> names e ''nycConfigPath''"
  by (auto simp: configurationErrors_def names_def stringIncludes_def sublist_Cons_right)

subsection \<open>Defaults of the resolved configuration\<close>

text \<open>
  Claim C8. When the raw configuration does not set \<^verbatim>\<open>initWorkspace\<close>, the resolved
  \<^verbatim>\<open>initWorkspace\<close> is true exactly when the resolved \<^verbatim>\<open>workspacePath\<close> ends in
  \<^verbatim>\<open>.code-workspace\<close> and nothing exists at that path when the configuration is resolved.
\<close>

theorem default_initWorkspace:
  assumes "validateAndResolveConfiguration resolve fs configPath config isCoverage = Inr r"
    and "getProp config ''initWorkspace'' = JUndefined"
  shows "initWorkspace r \<longleftrightarrow>
           endsWith (workspacePath r) ''.code-workspace'' \<and> \<not> pathExists fs (workspacePath r)"
proof -
  from assms(1) have "validateInitWorkspace fs config
      (endsWith (workspacePath r) ''.code-workspace'') (workspacePath r) = Inr (initWorkspace r)"
    by (rule validateAndResolveConfiguration_InrE)
  with assms(2) show ?thesis
    by (auto simp: validateInitWorkspace_def)
qed

theorem default_initWorkspace_witness:
  "validateAndResolveConfiguration (resolve2 ''/work'') sampleFs ''/proj/cfg.json'' minimalConfig False
     = Inr \<lparr> extensionDevelopmentPath = ''/proj'',
            workspacePath = ''/proj/test.code-workspace'',
            initWorkspace = True,
            mochaConfigPath = ''/proj/mocha.config.js'',
            nycConfigPath = None,
            userDataDir = None,
            vscodeVersion = None,
            additionalExtensionFolders = None,
            uninstallExtensionIDs = None,
            disabledExtensionIDs = None,
            disableAllExtensions = True \<rparr>
   \<and> getProp minimalConfig ''initWorkspace'' = JUndefined
   \<and> endsWith ''/proj/test.code-workspace'' ''.code-workspace''
   \<and> \<not> pathExists sampleFs ''/proj/test.code-workspace''"
proof -
  have u: "getProp minimalConfig ''initWorkspace'' = JUndefined"
    by (simp add: getProp_def minimalConfig_def)
  from default_initWorkspace [OF minimal_resolution u] minimal_resolution u
  show ?thesis by simp
qed

text \<open>
  Claim C9. When the raw configuration does not set \<^verbatim>\<open>disableAllExtensions\<close>, the resolved
  value is true exactly when \<^verbatim>\<open>additionalExtensionFolders\<close> is absent or empty; an explicit
  boolean is kept whatever \<^verbatim>\<open>additionalExtensionFolders\<close> holds.
\<close>

theorem default_disableAllExtensions:
  assumes "validateAndResolveConfiguration resolve fs configPath config isCoverage = Inr r"
  shows "(getProp config ''disableAllExtensions'' = JUndefined \<longrightarrow>
            (disableAllExtensions r \<longleftrightarrow>
               getProp config ''additionalExtensionFolders'' = JUndefined \<or>
               getProp config ''additionalExtensionFolders'' = JArr []))
         \<and> (\<forall>b. getProp config ''disableAllExtensions'' = JBool b \<longrightarrow> disableAllExtensions r = b)"
proof -
  from assms obtain aef where
    a: "assertStringArrayOrUndefinedParameter ''additionalExtensionFolders''
          (getProp config ''additionalExtensionFolders'') = Inr aef"
    and f: "additionalExtensionFolders r =
       (case aef of None \<Rightarrow> None
        | Some ps \<Rightarrow> Some (map (resolve (resolve configPath ''..'')) ps))"
    and d: "(getProp config ''disableAllExtensions'' = JUndefined \<and>
        disableAllExtensions r = isEmpty (additionalExtensionFolders r)) \<or>
        getProp config ''disableAllExtensions'' = JBool (disableAllExtensions r)"
    by (rule validateAndResolveConfiguration_InrE)
  have "isEmpty (additionalExtensionFolders r) \<longleftrightarrow> (aef = None \<or> aef = Some [])"
    using f by (cases aef) (simp_all add: isEmpty_def)
  also have "\<dots> \<longleftrightarrow> (getProp config ''additionalExtensionFolders'' = JUndefined \<or>
               getProp config ''additionalExtensionFolders'' = JArr [])"
    by (rule assertStringArray_empty_iff [OF a])
  finally show ?thesis using d by auto
qed

theorem default_disableAllExtensions_witness:
  "validateAndResolveConfiguration (resolve2 ''/work'') sampleFs ''/proj/cfg.json'' minimalConfig False
     = Inr \<lparr> extensionDevelopmentPath = ''/proj'',
            workspacePath = ''/proj/test.code-workspace'',
            initWorkspace = True,
            mochaConfigPath = ''/proj/mocha.config.js'',
            nycConfigPath = None,
            userDataDir = None,
            vscodeVersion = None,
            additionalExtensionFolders = None,
            uninstallExtensionIDs = None,
            disabledExtensionIDs = None,
            disableAllExtensions = True \<rparr>
   \<and> getProp minimalConfig ''disableAllExtensions'' = JUndefined
   \<and> getProp minimalConfig ''additionalExtensionFolders'' = JUndefined"
proof -
  have u: "getProp minimalConfig ''disableAllExtensions'' = JUndefined"
      "getProp minimalConfig ''additionalExtensionFolders'' = JUndefined"
    by (simp_all add: getProp_def minimalConfig_def)
  from default_disableAllExtensions [OF minimal_resolution] minimal_resolution u
  show ?thesis by simp
qed

text \<open>
  Claim C10. Without coverage the resolved \<^verbatim>\<open>nycConfigPath\<close> is undefined, and the raw
  \<^verbatim>\<open>nycConfigPath\<close> is not looked at: whatever it holds, a string or a value of a wrong type
  or nothing, the outcome of the resolution is the same.
\<close>

theorem nycConfigPath_ignored_without_coverage:
  "validateAndResolveConfiguration resolve fs configPath (config(''nycConfigPath'' := x)) False
     = validateAndResolveConfiguration resolve fs configPath config False
   \<and> (\<forall>r. validateAndResolveConfiguration resolve fs configPath config False = Inr r
          \<longrightarrow> nycConfigPath r = None)"
proof
  have k: "getProp (config(''nycConfigPath'' := x)) ''extensionDevelopmentPath''
             = getProp config ''extensionDevelopmentPath''"
    "getProp (config(''nycConfigPath'' := x)) ''userDataDir'' = getProp config ''userDataDir''"
    "getProp (config(''nycConfigPath'' := x)) ''vscodeVersion'' = getProp config ''vscodeVersion''"
    "getProp (config(''nycConfigPath'' := x)) ''uninstallExtensionIDs''
             = getProp config ''uninstallExtensionIDs''"
    "getProp (config(''nycConfigPath'' := x)) ''disabledExtensionIDs''
             = getProp config ''disabledExtensionIDs''"
    "getProp (config(''nycConfigPath'' := x)) ''additionalExtensionFolders''
             = getProp config ''additionalExtensionFolders''"
    "getProp (config(''nycConfigPath'' := x)) ''mochaConfigPath''
             = getProp config ''mochaConfigPath''"
    "getProp (config(''nycConfigPath'' := x)) ''workspacePath'' = getProp config ''workspacePath''"
    "getProp (config(''nycConfigPath'' := x)) ''initWorkspace'' = getProp config ''initWorkspace''"
    "getProp (config(''nycConfigPath'' := x)) ''disableAllExtensions''
             = getProp config ''disableAllExtensions''"
    by (simp_all add: getProp_def)
  show "validateAndResolveConfiguration resolve fs configPath
      (config(''nycConfigPath'' := x)) False
     = validateAndResolveConfiguration resolve fs configPath config False"
    unfolding validateAndResolveConfiguration_def validateNycConfigPath_def
        validateInitWorkspace_def k
    by simp
next
  show "\<forall>r. validateAndResolveConfiguration resolve fs configPath config False = Inr r
          \<longrightarrow> nycConfigPath r = None"
  proof (intro allI impI)
    fix r
    assume "validateAndResolveConfiguration resolve fs configPath config False = Inr r"
    then have "validateNycConfigPath resolve False config (resolve configPath ''..'')
       = Inr (nycConfigPath r)"
      by (rule validateAndResolveConfiguration_InrE)
    then show "nycConfigPath r = None"
      by (simp add: validateNycConfigPath_def)
  qed
qed

theorem nycConfigPath_ignored_without_coverage_witness:
  "validateAndResolveConfiguration (resolve2 ''/work'') sampleFs ''/proj/cfg.json''
     (minimalConfig(''nycConfigPath'' \<mapsto> JStr ''nyc.config.js'')) False
     = Inr \<lparr> extensionDevelopmentPath = ''/proj'',
            workspacePath = ''/proj/test.code-workspace'',
            initWorkspace = True,
            mochaConfigPath = ''/proj/mocha.config.js'',
            nycConfigPath = None,
            userDataDir = None,
            vscodeVersion = None,
            additionalExtensionFolders = None,
            uninstallExtensionIDs = None,
            disabledExtensionIDs = None,
            disableAllExtensions = True \<rparr>"
  using nycConfigPath_ignored_without_coverage
    [of "resolve2 ''/work''" sampleFs "''/proj/cfg.json''" minimalConfig "Some (JStr ''nyc.config.js'')"]
    minimal_resolution
  by simp

subsection \<open>Required fields and the order of the checks\<close>

lemma wellTyped_asserts:
  assumes "wellTypedBeforeMochaConfigPath config"
  obtains edp udd ver unin dis aef where
    "assertStringOrUndefinedParameter ''extensionDevelopmentPath''
       (getProp config ''extensionDevelopmentPath'') = Inr edp"
    "assertStringOrUndefinedParameter ''userDataDir'' (getProp config ''userDataDir'') = Inr udd"
    "assertStringOrUndefinedParameter ''vscodeVersion'' (getProp config ''vscodeVersion'') = Inr ver"
    "assertStringArrayOrUndefinedParameter ''uninstallExtensionIDs''
       (getProp config ''uninstallExtensionIDs'') = Inr unin"
    "assertStringArrayOrUndefinedParameter ''disabledExtensionIDs''
       (getProp config ''disabledExtensionIDs'') = Inr dis"
    "assertStringArrayOrUndefinedParameter ''additionalExtensionFolders''
       (getProp config ''additionalExtensionFolders'') = Inr aef"
  using assms assertString_ok assertStringArray_ok
  unfolding wellTypedBeforeMochaConfigPath_def by metis

lemma mochaConfigPath_missing_fails:
  assumes "getProp config ''mochaConfigPath'' = JUndefined"
  shows "\<exists>e. validateAndResolveConfiguration resolve fs configPath config isCoverage = Inl e"
proof (cases "validateAndResolveConfiguration resolve fs configPath config isCoverage")
  case (Inr r)
  then obtain m where "assertStringOrUndefinedParameter ''mochaConfigPath''
      (getProp config ''mochaConfigPath'') = Inr (Some m)"
    by (rule validateAndResolveConfiguration_InrE)
  with assms show ?thesis by (simp add: assertStringOrUndefinedParameter_def)
qed simp

lemma mochaConfigPath_missing_error:
  assumes "getProp config ''mochaConfigPath'' = JUndefined"
    and "wellTypedBeforeMochaConfigPath config"
  shows "validateAndResolveConfiguration resolve fs configPath config isCoverage
           = Inl (Error ''Configuration error: mochaConfigPath must be defined'')"
proof -
  from assms(2) obtain edp udd ver unin dis aef where
    "assertStringOrUndefinedParameter ''extensionDevelopmentPath''
       (getProp config ''extensionDevelopmentPath'') = Inr edp"
    "assertStringOrUndefinedParameter ''userDataDir'' (getProp config ''userDataDir'') = Inr udd"
    "assertStringOrUndefinedParameter ''vscodeVersion'' (getProp config ''vscodeVersion'') = Inr ver"
    "assertStringArrayOrUndefinedParameter ''uninstallExtensionIDs''
       (getProp config ''uninstallExtensionIDs'') = Inr unin"
    "assertStringArrayOrUndefinedParameter ''disabledExtensionIDs''
       (getProp config ''disabledExtensionIDs'') = Inr dis"
    "assertStringArrayOrUndefinedParameter ''additionalExtensionFolders''
       (getProp config ''additionalExtensionFolders'') = Inr aef"
    by (rule wellTyped_asserts)
  moreover have "assertStringOrUndefinedParameter ''mochaConfigPath''
      (getProp config ''mochaConfigPath'') = Inr None"
    using assms(1) by (simp add: assertStringOrUndefinedParameter_def)
  ultimately show ?thesis
    by (simp add: validateAndResolveConfiguration_def Let_def)
qed

lemma nycConfigPath_missing_fails:
  assumes "getProp config ''nycConfigPath'' = JUndefined"
  shows "\<exists>e. validateAndResolveConfiguration resolve fs configPath config True = Inl e"
proof (cases "validateAndResolveConfiguration resolve fs configPath config True")
  case (Inr r)
  then have "validateNycConfigPath resolve True config (resolve configPath ''..'')
       = Inr (nycConfigPath r)"
    by (rule validateAndResolveConfiguration_InrE)
  with assms show ?thesis
    by (simp add: validateNycConfigPath_def assertStringOrUndefinedParameter_def)
qed simp

lemma nycConfigPath_missing_error:
  assumes "getProp config ''nycConfigPath'' = JUndefined"
    and "wellTypedBeforeMochaConfigPath config"
    and "isStringValue (getProp config ''mochaConfigPath'')"
  shows "validateAndResolveConfiguration resolve fs configPath config True
           = Inl (Error ''Configuration error: nycConfigPath must be defined when coverage is enabled'')"
proof -
  from assms(2) obtain edp udd ver unin dis aef where
    "assertStringOrUndefinedParameter ''extensionDevelopmentPath''
       (getProp config ''extensionDevelopmentPath'') = Inr edp"
    "assertStringOrUndefinedParameter ''userDataDir'' (getProp config ''userDataDir'') = Inr udd"
    "assertStringOrUndefinedParameter ''vscodeVersion'' (getProp config ''vscodeVersion'') = Inr ver"
    "assertStringArrayOrUndefinedParameter ''uninstallExtensionIDs''
       (getProp config ''uninstallExtensionIDs'') = Inr unin"
    "assertStringArrayOrUndefinedParameter ''disabledExtensionIDs''
       (getProp config ''disabledExtensionIDs'') = Inr dis"
    "assertStringArrayOrUndefinedParameter ''additionalExtensionFolders''
       (getProp config ''additionalExtensionFolders'') = Inr aef"
    by (rule wellTyped_asserts)
  moreover from assms(3) obtain m where "getProp config ''mochaConfigPath'' = JStr m"
    by (cases "getProp config ''mochaConfigPath''") (simp_all add: isStringValue_def)
  then have "assertStringOrUndefinedParameter ''mochaConfigPath''
      (getProp config ''mochaConfigPath'') = Inr (Some m)"
    by (simp add: assertStringOrUndefinedParameter_def)
  moreover have "validateNycConfigPath resolve True config (resolve configPath ''..'')
       = Inl (Error ''Configuration error: nycConfigPath must be defined when coverage is enabled'')"
    using assms(1) by (simp add: validateNycConfigPath_def assertStringOrUndefinedParameter_def)
  ultimately show ?thesis
    by (simp add: validateAndResolveConfiguration_def Let_def)
qed

lemma names_mochaConfigPath:
  "names (Error ''Configuration error: mochaConfigPath must be defined'') ''mochaConfigPath''"
  by (simp add: names_def stringIncludes_def sublist_Cons_right)

lemma names_nycConfigPath:
  "names (Error ''Configuration error: nycConfigPath must be defined when coverage is enabled'')
     ''nycConfigPath''"
  by (simp add: names_def stringIncludes_def sublist_Cons_right)

lemma names_initWorkspace:
  "names (Error (''Configuration error: initWorkspace can be true only ''
                 @ ''for a workspace file and not a folder'')) ''initWorkspace''"
  by (simp add: names_def stringIncludes_def sublist_Cons_right)

text \<open>
  Claim C1, as amended. The resolver checks the types of six other fields before it looks
  at \<^verbatim>\<open>mochaConfigPath\<close>, and the first failing check decides the error. A raw configuration
  without \<^verbatim>\<open>mochaConfigPath\<close> always fails to resolve; the error names \<^verbatim>\<open>mochaConfigPath\<close>
  when those six fields are well typed. With coverage, a raw configuration without
  \<^verbatim>\<open>nycConfigPath\<close> always fails to resolve; the error names \<^verbatim>\<open>nycConfigPath\<close> when the six
  fields are well typed and \<^verbatim>\<open>mochaConfigPath\<close> is a string. Without coverage no error of
  the resolver names \<^verbatim>\<open>nycConfigPath\<close>.
\<close>

theorem missing_required_config_path:
  "(getProp config ''mochaConfigPath'' = JUndefined \<longrightarrow>
      (\<exists>e. validateAndResolveConfiguration resolve fs configPath config isCoverage = Inl e \<and>
           (wellTypedBeforeMochaConfigPath config \<longrightarrow>
              e = Error ''Configuration error: mochaConfigPath must be defined'' \<and>
              names e ''mochaConfigPath'')))
   \<and> (getProp config ''nycConfigPath'' = JUndefined \<longrightarrow>
      (\<exists>e. validateAndResolveConfiguration resolve fs configPath config True = Inl e \<and>
           (wellTypedBeforeMochaConfigPath config \<and>
            isStringValue (getProp config ''mochaConfigPath'') \<longrightarrow>
              e = Error
                ''Configuration error: nycConfigPath must be defined when coverage is enabled'' \<and>
              names e ''nycConfigPath'')))
   \<and> (\<forall>e. validateAndResolveConfiguration resolve fs configPath config False = Inl e \<longrightarrow>
          \<not> names e ''nycConfigPath'')"
proof (intro conjI impI allI)
  assume m: "getProp config ''mochaConfigPath'' = JUndefined"
  from mochaConfigPath_missing_fails [OF m] obtain e where
    e: "validateAndResolveConfiguration resolve fs configPath config isCoverage = Inl e"
    by blast
  show "\<exists>e. validateAndResolveConfiguration resolve fs configPath config isCoverage = Inl e \<and>
           (wellTypedBeforeMochaConfigPath config \<longrightarrow>
              e = Error ''Configuration error: mochaConfigPath must be defined'' \<and>
              names e ''mochaConfigPath'')"
    using e mochaConfigPath_missing_error [OF m, of resolve fs configPath isCoverage]
      names_mochaConfigPath by auto
next
  assume n: "getProp config ''nycConfigPath'' = JUndefined"
  from nycConfigPath_missing_fails [OF n] obtain e where
    e: "validateAndResolveConfiguration resolve fs configPath config True = Inl e"
    by blast
  show "\<exists>e. validateAndResolveConfiguration resolve fs configPath config True = Inl e \<and>
           (wellTypedBeforeMochaConfigPath config \<and>
            isStringValue (getProp config ''mochaConfigPath'') \<longrightarrow>
              e = Error
                ''Configuration error: nycConfigPath must be defined when coverage is enabled'' \<and>
              names e ''nycConfigPath'')"
    using e nycConfigPath_missing_error [OF n, of resolve fs configPath]
      names_nycConfigPath by auto
next
  fix e
  assume "validateAndResolveConfiguration resolve fs configPath config False = Inl e"
  then have "e \<in> set (configurationErrors False)"
    by (rule resolver_errors)
  then show "\<not> names e ''nycConfigPath''"
    by (rule no_nyc_error_without_coverage)
qed

theorem missing_required_config_path_witness:
  "getProp Map.empty ''mochaConfigPath'' = JUndefined
   \<and> wellTypedBeforeMochaConfigPath Map.empty
   \<and> validateAndResolveConfiguration (resolve2 ''/work'') sampleFs ''/proj/cfg.json'' Map.empty False
       = Inl (Error ''Configuration error: mochaConfigPath must be defined'')
   \<and> names (Error ''Configuration error: mochaConfigPath must be defined'') ''mochaConfigPath''
   \<and> getProp minimalConfig ''nycConfigPath'' = JUndefined
   \<and> wellTypedBeforeMochaConfigPath minimalConfig
   \<and> isStringValue (getProp minimalConfig ''mochaConfigPath'')
   \<and> validateAndResolveConfiguration (resolve2 ''/work'') sampleFs ''/proj/cfg.json''
        minimalConfig True
       = Inl (Error
           ''Configuration error: nycConfigPath must be defined when coverage is enabled'')
   \<and> names (Error
         ''Configuration error: nycConfigPath must be defined when coverage is enabled'')
        ''nycConfigPath''"
proof -
  have a: "getProp Map.empty ''mochaConfigPath'' = JUndefined"
    "wellTypedBeforeMochaConfigPath Map.empty"
    by (simp_all add: getProp_def wellTypedBeforeMochaConfigPath_def isStringOrUndefined_def
        isStringArrayOrUndefined_def)
  have b: "getProp minimalConfig ''nycConfigPath'' = JUndefined"
    "wellTypedBeforeMochaConfigPath minimalConfig"
    "isStringValue (getProp minimalConfig ''mochaConfigPath'')"
    by (simp_all add: getProp_def wellTypedBeforeMochaConfigPath_def isStringOrUndefined_def
        isStringArrayOrUndefined_def isStringValue_def minimalConfig_def)
  from missing_required_config_path
         [of Map.empty "resolve2 ''/work''" sampleFs "''/proj/cfg.json''" False] a
  have 1: "validateAndResolveConfiguration (resolve2 ''/work'') sampleFs ''/proj/cfg.json''
             Map.empty False
       = Inl (Error ''Configuration error: mochaConfigPath must be defined'')
     \<and> names (Error ''Configuration error: mochaConfigPath must be defined'') ''mochaConfigPath''"
    by auto
  from missing_required_config_path
         [of minimalConfig "resolve2 ''/work''" sampleFs "''/proj/cfg.json''" True] b
  have 2: "validateAndResolveConfiguration (resolve2 ''/work'') sampleFs ''/proj/cfg.json''
        minimalConfig True
       = Inl (Error
           ''Configuration error: nycConfigPath must be defined when coverage is enabled'')
   \<and> names (Error
         ''Configuration error: nycConfigPath must be defined when coverage is enabled'')
        ''nycConfigPath''"
    by auto
  from a b 1 2 show ?thesis by blast
qed

theorem missing_mochaConfigPath_counterexample:
  "getProp [''userDataDir'' \<mapsto> JNum 5] ''mochaConfigPath'' = JUndefined
   \<and> validateAndResolveConfiguration (resolve2 ''/work'') sampleFs ''/proj/cfg.json''
        [''userDataDir'' \<mapsto> JNum 5] False
       = Inl (Error ''Configuration error: userDataDir must be a string'')
   \<and> \<not> names (Error ''Configuration error: userDataDir must be a string'') ''mochaConfigPath''"
  by (simp add: resolver_eval posix_eval names_def stringIncludes_def sublist_Cons_right)

text \<open>
  Claim C2, as amended. The resolver tells a workspace file from a folder by the suffix
  \<^verbatim>\<open>.code-workspace\<close> of the resolved path alone. With \<^verbatim>\<open>initWorkspace\<close> explicitly true and
  a resolved \<^verbatim>\<open>workspacePath\<close> that is an existing directory and does not end in
  \<^verbatim>\<open>.code-workspace\<close>, the resolution always fails; the error names \<^verbatim>\<open>initWorkspace\<close> when
  the checks before it pass (the six fields validated first are well typed,
  \<^verbatim>\<open>mochaConfigPath\<close> is a string and, with coverage, so is \<^verbatim>\<open>nycConfigPath\<close>).
\<close>

theorem initWorkspace_true_on_folder:
  assumes iw: "getProp config ''initWorkspace'' = JBool True"
    and wp: "getProp config ''workspacePath'' = JStr P \<or>
             (getProp config ''workspacePath'' = JUndefined \<and> P = ''test.code-workspace'')"
    and dir: "isDirectory fs (resolve (resolve configPath ''..'') P)"
    and nosuffix: "\<not> endsWith (resolve (resolve configPath ''..'') P) ''.code-workspace''"
  shows "\<exists>e. validateAndResolveConfiguration resolve fs configPath config isCoverage = Inl e \<and>
           (wellTypedBeforeMochaConfigPath config \<and>
            isStringValue (getProp config ''mochaConfigPath'') \<and>
            (isCoverage \<longrightarrow> isStringValue (getProp config ''nycConfigPath'')) \<longrightarrow>
              e = Error (''Configuration error: initWorkspace can be true only ''
                         @ ''for a workspace file and not a folder'') \<and>
              names e ''initWorkspace'')"
proof -
  let ?V = "validateAndResolveConfiguration resolve fs configPath config isCoverage"
  let ?w = "resolve (resolve configPath ''..'') P"
  from wp have a: "assertStringOrUndefinedParameter ''workspacePath''
      (getProp config ''workspacePath'') =
      Inr (if getProp config ''workspacePath'' = JUndefined then None else Some P)"
    by (auto simp: assertStringOrUndefinedParameter_def)
  have w: "resolve (resolve configPath ''..'')
             (case (if getProp config ''workspacePath'' = JUndefined then None else Some P) of
                None \<Rightarrow> ''test.code-workspace'' | Some p \<Rightarrow> p) = ?w"
    using wp by auto
  have v: "validateInitWorkspace fs config False ?w =
      Inl (Error (''Configuration error: initWorkspace can be true only ''
                  @ ''for a workspace file and not a folder''))"
    using iw by (simp add: validateInitWorkspace_def)
  have ex: "pathExists fs ?w"
    using dir by (auto simp: isDirectory_def pathExists_def split: option.splits)
  have fails: "\<exists>e. ?V = Inl e"
  proof (cases ?V)
    case (Inr r)
    then obtain wp' where
      1: "assertStringOrUndefinedParameter ''workspacePath'' (getProp config ''workspacePath'')
           = Inr wp'"
      and 2: "workspacePath r = resolve (resolve configPath ''..'')
         (case wp' of None \<Rightarrow> ''test.code-workspace'' | Some p \<Rightarrow> p)"
      and 3: "validateInitWorkspace fs config (endsWith (workspacePath r) ''.code-workspace'')
         (workspacePath r) = Inr (initWorkspace r)"
      by (rule validateAndResolveConfiguration_InrE)
    from 1 a 2 w have "workspacePath r = ?w" by simp
    with 3 v nosuffix show ?thesis by simp
  qed simp
  have exact: "?V = Inl (Error (''Configuration error: initWorkspace can be true only ''
                         @ ''for a workspace file and not a folder''))"
    if t: "wellTypedBeforeMochaConfigPath config"
      and m: "isStringValue (getProp config ''mochaConfigPath'')"
      and n: "isCoverage \<longrightarrow> isStringValue (getProp config ''nycConfigPath'')"
  proof -
    from t obtain edp udd ver unin dis aef where
      "assertStringOrUndefinedParameter ''extensionDevelopmentPath''
         (getProp config ''extensionDevelopmentPath'') = Inr edp"
      "assertStringOrUndefinedParameter ''userDataDir'' (getProp config ''userDataDir'') = Inr udd"
      "assertStringOrUndefinedParameter ''vscodeVersion'' (getProp config ''vscodeVersion'')
         = Inr ver"
      "assertStringArrayOrUndefinedParameter ''uninstallExtensionIDs''
         (getProp config ''uninstallExtensionIDs'') = Inr unin"
      "assertStringArrayOrUndefinedParameter ''disabledExtensionIDs''
         (getProp config ''disabledExtensionIDs'') = Inr dis"
      "assertStringArrayOrUndefinedParameter ''additionalExtensionFolders''
         (getProp config ''additionalExtensionFolders'') = Inr aef"
      by (rule wellTyped_asserts)
    moreover from m obtain mp where "getProp config ''mochaConfigPath'' = JStr mp"
      by (cases "getProp config ''mochaConfigPath''") (simp_all add: isStringValue_def)
    then have "assertStringOrUndefinedParameter ''mochaConfigPath''
        (getProp config ''mochaConfigPath'') = Inr (Some mp)"
      by (simp add: assertStringOrUndefinedParameter_def)
    moreover have "\<exists>nyc. validateNycConfigPath resolve isCoverage config
        (resolve configPath ''..'') = Inr nyc"
      using n by (cases "getProp config ''nycConfigPath''")
        (auto simp: validateNycConfigPath_def assertStringOrUndefinedParameter_def
          isStringValue_def)
    then obtain nyc where "validateNycConfigPath resolve isCoverage config
        (resolve configPath ''..'') = Inr nyc" by blast
    ultimately show ?thesis
      using a w v ex dir nosuffix
      by (simp add: validateAndResolveConfiguration_def Let_def)
  qed
  from fails exact names_initWorkspace show ?thesis by auto
qed

theorem initWorkspace_true_on_folder_witness:
  "getProp (minimalConfig(''initWorkspace'' \<mapsto> JBool True, ''workspacePath'' \<mapsto> JStr ''ws''))
     ''initWorkspace'' = JBool True
   \<and> isDirectory sampleFs (resolve2 ''/work'' (resolve2 ''/work'' ''/proj/cfg.json'' ''..'') ''ws'')
   \<and> \<not> endsWith (resolve2 ''/work'' (resolve2 ''/work'' ''/proj/cfg.json'' ''..'') ''ws'')
        ''.code-workspace''
   \<and> validateAndResolveConfiguration (resolve2 ''/work'') sampleFs ''/proj/cfg.json''
        (minimalConfig(''initWorkspace'' \<mapsto> JBool True, ''workspacePath'' \<mapsto> JStr ''ws'')) False
       = Inl (Error (''Configuration error: initWorkspace can be true only ''
                     @ ''for a workspace file and not a folder''))"
proof -
  let ?c = "minimalConfig(''initWorkspace'' \<mapsto> JBool True, ''workspacePath'' \<mapsto> JStr ''ws'')"
  have p: "resolve2 ''/work'' (resolve2 ''/work'' ''/proj/cfg.json'' ''..'') ''ws'' = ''/proj/ws''"
    by (simp add: posix_eval)
  have 1: "getProp ?c ''initWorkspace'' = JBool True"
    and 2: "getProp ?c ''workspacePath'' = JStr ''ws'' \<or>
             (getProp ?c ''workspacePath'' = JUndefined \<and> ''ws'' = ''test.code-workspace'')"
    by (simp_all add: getProp_def)
  have 3: "isDirectory sampleFs
      (resolve2 ''/work'' (resolve2 ''/work'' ''/proj/cfg.json'' ''..'') ''ws'')"
    unfolding p by (simp add: isDirectory_def sampleFs_def)
  have 4: "\<not> endsWith (resolve2 ''/work'' (resolve2 ''/work'' ''/proj/cfg.json'' ''..'') ''ws'')
        ''.code-workspace''"
    unfolding p by (simp add: endsWith_def suffix_to_prefix)
  have 5: "wellTypedBeforeMochaConfigPath ?c" "isStringValue (getProp ?c ''mochaConfigPath'')"
    by (simp_all add: getProp_def wellTypedBeforeMochaConfigPath_def isStringOrUndefined_def
        isStringArrayOrUndefined_def isStringValue_def minimalConfig_def)
  from initWorkspace_true_on_folder
         [where resolve = "resolve2 ''/work''" and fs = sampleFs and configPath = "''/proj/cfg.json''"
            and config = ?c and P = "''ws''" and isCoverage = False, OF 1 2 3 4] 5
  have "validateAndResolveConfiguration (resolve2 ''/work'') sampleFs ''/proj/cfg.json'' ?c False
       = Inl (Error (''Configuration error: initWorkspace can be true only ''
                     @ ''for a workspace file and not a folder''))"
    by auto
  with 1 3 4 show ?thesis by blast
qed

theorem initWorkspace_true_on_folder_counterexample:
  "getProp (minimalConfig(''initWorkspace'' \<mapsto> JBool True,
                          ''workspacePath'' \<mapsto> JStr ''dir.code-workspace''))
     ''initWorkspace'' = JBool True
   \<and> isDirectory sampleFs ''/proj/dir.code-workspace''
   \<and> validateAndResolveConfiguration (resolve2 ''/work'') sampleFs ''/proj/cfg.json''
        (minimalConfig(''initWorkspace'' \<mapsto> JBool True,
                       ''workspacePath'' \<mapsto> JStr ''dir.code-workspace'')) False
       = Inr \<lparr> extensionDevelopmentPath = ''/proj'',
            workspacePath = ''/proj/dir.code-workspace'',
            initWorkspace = True,
            mochaConfigPath = ''/proj/mocha.config.js'',
            nycConfigPath = None,
            userDataDir = None,
            vscodeVersion = None,
            additionalExtensionFolders = None,
            uninstallExtensionIDs = None,
            disabledExtensionIDs = None,
            disableAllExtensions = True \<rparr>"
  by (simp add: resolver_eval posix_eval minimalConfig_def sampleFs_def)

section \<open>Proofs: resolve and join on POSIX paths\<close>









lemma joinSegments_empty_iff:
  "\<forall>seg \<in> set segs. seg \<noteq> [] \<Longrightarrow> joinSegments segs = [] \<longleftrightarrow> segs = []"
  by (induction segs rule: joinSegments.induct) auto










subsection \<open>Path fields\<close>







section \<open>Proofs: extension provisioning and the launcher\<close>

lemma spawnCalls_append: "spawnCalls (xs @ ys) = spawnCalls xs @ spawnCalls ys"
  by (induction xs rule: spawnCalls.induct) simp_all

text \<open>
  Claim C4. When the install invocation happens, the invocations of \<^verbatim>\<open>installExtensions\<close>
  are the uninstall invocation, if any, then the first install invocation and, exactly
  when its captured stderr contains both \<^verbatim>\<open>Failed\<close> and \<^verbatim>\<open>restart\<close>, one more invocation
  with the same command and the same argument list; nothing else.
\<close>

theorem install_retry_once:
  assumes folders: "folders \<noteq> []"
    and args: "getInstallArgsFromInstallationFolders env folders = Inr installArgs0"
  shows
    "(let cli = resolveCliPathFromVSCodeExecutablePath env vscodeExe;
          userDataArgs = (case userDataDirOpt of None \<Rightarrow> [] | Some d \<Rightarrow> [''--user-data-dir'', d]);
          firstInstall = \<lparr> command = cli,
                            arguments = installArgs0 @ [''--force''] @ userDataArgs,
                            stdioInherit = False \<rparr>;
          retry = firstInstall \<lparr> stdioInherit := True \<rparr>;
          uninstalls =
            (case uninstallIDs of
               None \<Rightarrow> []
             | Some ids \<Rightarrow>
                 (if ids = [] then []
                  else [\<lparr> command = cli,
                          arguments =
                            concat (map (\<lambda>extensionID. [''--uninstall-extension'', extensionID])
                                      ids)
                            @ [''--force''] @ userDataArgs,
                          stdioInherit = True \<rparr>]));
          calls = spawnCalls (snd (installExtensions env vscodeExe userDataDirOpt uninstallIDs
                                     (Some folders)))
      in (case stderr (spawnSync env firstInstall) of
            None \<Rightarrow> calls = uninstalls @ [firstInstall]
          | Some text \<Rightarrow>
              (if stringIncludes text ''Failed'' \<and> stringIncludes text ''restart''
               then calls = uninstalls @ [firstInstall, retry] \<and>
                    arguments retry = arguments firstInstall \<and>
                    command retry = command firstInstall
               else calls = uninstalls @ [firstInstall])))"
  using folders args
  by (cases uninstallIDs)
     (auto simp: installExtensions_def Let_def USER_DATA_DIR_PARAM_def spawnCalls_append
           split: option.splits)

theorem install_retry_once_witness:
  "[''/proj/deps''] \<noteq> []
   \<and> getInstallArgsFromInstallationFolders sampleHostEnv [''/proj/deps'']
       = Inr [''--install-extension'', ''/proj/deps/a.vsix'']
   \<and> stderr (spawnSync sampleHostEnv
         \<lparr> command = ''/vscode/bin/code'',
           arguments = [''--install-extension'', ''/proj/deps/a.vsix'', ''--force''],
           stdioInherit = False \<rparr>)
       = Some ''Please restart VS Code. Failed Installing Extensions''
   \<and> stringIncludes ''Please restart VS Code. Failed Installing Extensions'' ''Failed''
   \<and> stringIncludes ''Please restart VS Code. Failed Installing Extensions'' ''restart''
   \<and> spawnCalls (snd (installExtensions sampleHostEnv ''/vscode/code'' None None
                        (Some [''/proj/deps''])))
       = [\<lparr> command = ''/vscode/bin/code'',
            arguments = [''--install-extension'', ''/proj/deps/a.vsix'', ''--force''],
            stdioInherit = False \<rparr>,
          \<lparr> command = ''/vscode/bin/code'',
            arguments = [''--install-extension'', ''/proj/deps/a.vsix'', ''--force''],
            stdioInherit = True \<rparr>]"
proof -
  have n: "[''/proj/deps''] \<noteq> ([] :: string list)" by simp
  have j: "join2 ''/proj/deps'' ''a.vsix'' = ''/proj/deps/a.vsix''"
    by (simp add: join2_def posix_join_def posix_normalize_def normalizeString_def)
  have a: "getInstallArgsFromInstallationFolders sampleHostEnv [''/proj/deps'']
       = Inr [''--install-extension'', ''/proj/deps/a.vsix'']"
    by (simp add: sampleHostEnv_def sampleFs_def pathExists_def readdir_def bindE_def
        endsWith_def suffix_to_prefix j)
  have e: "stderr (spawnSync sampleHostEnv
         \<lparr> command = ''/vscode/bin/code'',
           arguments = [''--install-extension'', ''/proj/deps/a.vsix'', ''--force''],
           stdioInherit = False \<rparr>)
       = Some ''Please restart VS Code. Failed Installing Extensions''"
    by (simp add: sampleHostEnv_def)
  have c: "resolveCliPathFromVSCodeExecutablePath sampleHostEnv ''/vscode/code''
             = ''/vscode/bin/code''"
    by (simp add: sampleHostEnv_def)
  have i: "stringIncludes ''Please restart VS Code. Failed Installing Extensions'' ''Failed''"
    "stringIncludes ''Please restart VS Code. Failed Installing Extensions'' ''restart''"
    by (simp_all add: stringIncludes_def sublist_Cons_right)
  from install_retry_once [OF n a, of "''/vscode/code''" None None]
  have "spawnCalls (snd (installExtensions sampleHostEnv ''/vscode/code'' None None
                        (Some [''/proj/deps''])))
       = [\<lparr> command = ''/vscode/bin/code'',
            arguments = [''--install-extension'', ''/proj/deps/a.vsix'', ''--force''],
            stdioInherit = False \<rparr>,
          \<lparr> command = ''/vscode/bin/code'',
            arguments = [''--install-extension'', ''/proj/deps/a.vsix'', ''--force''],
            stdioInherit = True \<rparr>]"
    by (simp add: c e i Let_def)
  with n a e i show ?thesis by blast
qed

subsection \<open>The workspace descriptor\<close>

lemma installExtensions_events:
  assumes "ev \<in> set (snd (installExtensions env vscodeExe udd unin folders))"
  shows "(\<exists>call. ev = Spawn call) \<or> (\<exists>text. ev = ConsoleLog text)
         \<or> (\<exists>text. ev = ConsoleError text None)"
  using assms
  by (auto simp: installExtensions_def Let_def split: if_splits sum.splits option.splits)

lemma getInstallArgs_unlink:
  "getInstallArgsFromInstallationFolders (env\<lparr>unlink := u\<rparr>) folders
     = getInstallArgsFromInstallationFolders env folders"
  by (induction folders) (simp_all add: Let_def cong: if_cong)

lemma installExtensions_unlink:
  "installExtensions (env\<lparr>unlink := u\<rparr>) vscodeExe udd unin folders
     = installExtensions env vscodeExe udd unin folders"
  by (simp add: installExtensions_def getInstallArgs_unlink Let_def
        cong: if_cong sum.case_cong option.case_cong split del: if_split)

lemma runVSCodeTestsTry_unlink:
  "runVSCodeTestsTry (env\<lparr>unlink := u\<rparr>) isCoverage config
     = runVSCodeTestsTry env isCoverage config"
proof -
  have l: "launchOptions (env\<lparr>unlink := u\<rparr>) isCoverage config exe
             = launchOptions env isCoverage config exe" for exe
    by (simp add: launchOptions_def Let_def
          cong: if_cong option.case_cong split del: if_split)
  show ?thesis
    unfolding runVSCodeTestsTry_def installExtensions_unlink l
    by (simp add: Let_def cong: if_cong sum.case_cong option.case_cong prod.case_cong
          split del: if_split)
qed

lemma runVSCodeTests_outcome:
  "fst (runVSCodeTests env isCoverage config) = fst (runVSCodeTestsTry env isCoverage config)"
  by (simp add: runVSCodeTests_def split: prod.splits option.splits)

text \<open>The six ways through \<^verbatim>\<open>runVSCodeTests\<close>.\<close>

lemma runVSCodeTests_cases:
  obtains
    (download_fails) e where
      "downloadAndUnzipVSCode env (vscodeVersion config) = Inl e"
      "runVSCodeTests env isCoverage config = (Some e, [Download (vscodeVersion config)])"
  | (install_fails) vscodeExe e installTrace where
      "downloadAndUnzipVSCode env (vscodeVersion config) = Inr vscodeExe"
      "installExtensions env vscodeExe (userDataDir config) (uninstallExtensionIDs config)
         (additionalExtensionFolders config) = (Some e, installTrace)"
      "runVSCodeTests env isCoverage config
         = (Some e, Download (vscodeVersion config) # installTrace)"
  | (no_init) vscodeExe installTrace where
      "downloadAndUnzipVSCode env (vscodeVersion config) = Inr vscodeExe"
      "installExtensions env vscodeExe (userDataDir config) (uninstallExtensionIDs config)
         (additionalExtensionFolders config) = (None, installTrace)"
      "\<not> initWorkspace config"
      "runVSCodeTests env isCoverage config
         = (runTests env (launchOptions env isCoverage config vscodeExe),
            Download (vscodeVersion config) # installTrace
            @ [RunTests (launchOptions env isCoverage config vscodeExe)])"
  | (mkdirs_fails) vscodeExe installTrace e where
      "downloadAndUnzipVSCode env (vscodeVersion config) = Inr vscodeExe"
      "installExtensions env vscodeExe (userDataDir config) (uninstallExtensionIDs config)
         (additionalExtensionFolders config) = (None, installTrace)"
      "initWorkspace config"
      "mkdirs env (pathDirname env (workspacePath config)) = Some e"
      "runVSCodeTests env isCoverage config
         = (Some e, Download (vscodeVersion config) # installTrace
                    @ [Mkdirs (pathDirname env (workspacePath config))])"
  | (write_fails) vscodeExe installTrace e where
      "downloadAndUnzipVSCode env (vscodeVersion config) = Inr vscodeExe"
      "installExtensions env vscodeExe (userDataDir config) (uninstallExtensionIDs config)
         (additionalExtensionFolders config) = (None, installTrace)"
      "initWorkspace config"
      "mkdirs env (pathDirname env (workspacePath config)) = None"
      "writeJson env (workspacePath config) emptyWorkspace = Some e"
      "runVSCodeTests env isCoverage config
         = (Some e, Download (vscodeVersion config) # installTrace
                    @ [Mkdirs (pathDirname env (workspacePath config)),
                       WriteJson (workspacePath config) emptyWorkspace])"
  | (written) vscodeExe installTrace where
      "downloadAndUnzipVSCode env (vscodeVersion config) = Inr vscodeExe"
      "installExtensions env vscodeExe (userDataDir config) (uninstallExtensionIDs config)
         (additionalExtensionFolders config) = (None, installTrace)"
      "initWorkspace config"
      "mkdirs env (pathDirname env (workspacePath config)) = None"
      "writeJson env (workspacePath config) emptyWorkspace = None"
      "runVSCodeTests env isCoverage config
         = (runTests env (launchOptions env isCoverage config vscodeExe),
            (Download (vscodeVersion config) # installTrace
             @ [Mkdirs (pathDirname env (workspacePath config))])
            @ [WriteJson (workspacePath config) emptyWorkspace,
               RunTests (launchOptions env isCoverage config vscodeExe),
               Unlink (workspacePath config)]
            @ (case unlink env (workspacePath config) of
                 None \<Rightarrow> []
               | Some e \<Rightarrow>
                   [ConsoleError (''Could not delete workspace file at path ''
                                  @ workspacePath config) (Some e)]))"
proof (cases "downloadAndUnzipVSCode env (vscodeVersion config)")
  case (Inl e)
  then show thesis
    by (intro download_fails [of e]) (simp_all add: runVSCodeTests_def runVSCodeTestsTry_def)
next
  case (Inr vscodeExe)
  obtain outcome installTrace where i:
    "installExtensions env vscodeExe (userDataDir config) (uninstallExtensionIDs config)
         (additionalExtensionFolders config) = (outcome, installTrace)"
    by (cases "installExtensions env vscodeExe (userDataDir config)
         (uninstallExtensionIDs config) (additionalExtensionFolders config)") auto
  show thesis
  proof (cases outcome)
    case (Some e)
    with Inr i show thesis
      by (intro install_fails [of vscodeExe e installTrace])
         (simp_all add: runVSCodeTests_def runVSCodeTestsTry_def)
  next
    case None
    note n = None
    show thesis
    proof (cases "initWorkspace config")
      case False
      with Inr i n show thesis
        by (intro no_init [of vscodeExe installTrace])
           (simp_all add: runVSCodeTests_def runVSCodeTestsTry_def Let_def)
    next
      case True
      note t = True
      show thesis
      proof (cases "mkdirs env (pathDirname env (workspacePath config))")
        case (Some e)
        with Inr i n t show thesis
          by (intro mkdirs_fails [of vscodeExe installTrace e])
             (simp_all add: runVSCodeTests_def runVSCodeTestsTry_def Let_def)
      next
        case None
        note m = None
        show thesis
        proof (cases "writeJson env (workspacePath config) emptyWorkspace")
          case (Some e)
          with Inr i n t m show thesis
            by (intro write_fails [of vscodeExe installTrace e])
               (simp_all add: runVSCodeTests_def runVSCodeTestsTry_def Let_def)
        next
          case None
          with Inr i n t m show thesis
            by (intro written [of vscodeExe installTrace])
               (simp_all add: runVSCodeTests_def runVSCodeTestsTry_def Let_def
                  split: option.splits)
        qed
      qed
    qed
  qed
qed

lemma install_no_files:
  assumes "installExtensions env vscodeExe udd unin folders = (outcome, installTrace)"
  shows "WriteJson p v \<notin> set installTrace" "Unlink p \<notin> set installTrace"
  using installExtensions_events [of "WriteJson p v" env vscodeExe udd unin folders]
    installExtensions_events [of "Unlink p" env vscodeExe udd unin folders] assms
  by auto

text \<open>
  Claim C6, as amended. \<^verbatim>\<open>runVSCodeTests\<close> writes the workspace descriptor
  \<^verbatim>\<open>{ folders: [] }\<close> only if \<^verbatim>\<open>config.initWorkspace\<close> is true, and does write it when
  \<^verbatim>\<open>config.initWorkspace\<close> is true and the steps before it (download of the host, provisioning
  of extensions, creation of the parent directory) succeed. Whenever it wrote the file,
  it then starts the host and, whatever the outcome of the host run, deletes the file; the
  promise settles as the host run did. A failure of the deletion is logged and never
  changes the outcome. It deletes no file other than the descriptor it wrote.
\<close>

theorem workspace_descriptor_lifecycle:
  "(\<forall>p v. WriteJson p v \<in> set (snd (runVSCodeTests env isCoverage config)) \<longrightarrow>
       initWorkspace config \<and> p = workspacePath config \<and> v = emptyWorkspace)
   \<and> (initWorkspace config \<and> reachesWorkspaceWrite env config \<longrightarrow>
        WriteJson (workspacePath config) emptyWorkspace
          \<in> set (snd (runVSCodeTests env isCoverage config)))
   \<and> (WriteJson (workspacePath config) emptyWorkspace
          \<in> set (snd (runVSCodeTests env isCoverage config)) \<and>
        writeJson env (workspacePath config) emptyWorkspace = None \<longrightarrow>
        (\<exists>before options.
           snd (runVSCodeTests env isCoverage config)
             = before
               @ [WriteJson (workspacePath config) emptyWorkspace, RunTests options,
                  Unlink (workspacePath config)]
               @ (case unlink env (workspacePath config) of
                    None \<Rightarrow> []
                  | Some e \<Rightarrow>
                      [ConsoleError (''Could not delete workspace file at path ''
                                     @ workspacePath config) (Some e)]) \<and>
           fst (runVSCodeTests env isCoverage config) = runTests env options))
   \<and> (\<forall>u. fst (runVSCodeTests (env\<lparr>unlink := u\<rparr>) isCoverage config)
            = fst (runVSCodeTests env isCoverage config))
   \<and> (\<forall>p. Unlink p \<in> set (snd (runVSCodeTests env isCoverage config)) \<longrightarrow>
          p = workspacePath config \<and>
          WriteJson p emptyWorkspace \<in> set (snd (runVSCodeTests env isCoverage config)) \<and>
          writeJson env p emptyWorkspace = None)"
proof (intro conjI)
  show "\<forall>p v. WriteJson p v \<in> set (snd (runVSCodeTests env isCoverage config)) \<longrightarrow>
       initWorkspace config \<and> p = workspacePath config \<and> v = emptyWorkspace"
    by (cases rule: runVSCodeTests_cases [of env config isCoverage])
       (auto dest: install_no_files split: option.splits)
next
  show "initWorkspace config \<and> reachesWorkspaceWrite env config \<longrightarrow>
        WriteJson (workspacePath config) emptyWorkspace
          \<in> set (snd (runVSCodeTests env isCoverage config))"
    by (cases rule: runVSCodeTests_cases [of env config isCoverage])
       (auto simp: reachesWorkspaceWrite_def)
next
  show "WriteJson (workspacePath config) emptyWorkspace
          \<in> set (snd (runVSCodeTests env isCoverage config)) \<and>
        writeJson env (workspacePath config) emptyWorkspace = None \<longrightarrow>
        (\<exists>before options.
           snd (runVSCodeTests env isCoverage config)
             = before
               @ [WriteJson (workspacePath config) emptyWorkspace, RunTests options,
                  Unlink (workspacePath config)]
               @ (case unlink env (workspacePath config) of
                    None \<Rightarrow> []
                  | Some e \<Rightarrow>
                      [ConsoleError (''Could not delete workspace file at path ''
                                     @ workspacePath config) (Some e)]) \<and>
           fst (runVSCodeTests env isCoverage config) = runTests env options)"
  proof (cases rule: runVSCodeTests_cases [of env config isCoverage])
    case (written vscodeExe installTrace)
    then show ?thesis by (intro impI exI conjI) simp_all
  qed (auto dest: install_no_files)
next
  show "\<forall>u. fst (runVSCodeTests (env\<lparr>unlink := u\<rparr>) isCoverage config)
            = fst (runVSCodeTests env isCoverage config)"
    by (simp add: runVSCodeTests_outcome runVSCodeTestsTry_unlink)
next
  show "\<forall>p. Unlink p \<in> set (snd (runVSCodeTests env isCoverage config)) \<longrightarrow>
          p = workspacePath config \<and>
          WriteJson p emptyWorkspace \<in> set (snd (runVSCodeTests env isCoverage config)) \<and>
          writeJson env p emptyWorkspace = None"
    by (cases rule: runVSCodeTests_cases [of env config isCoverage])
       (auto dest: install_no_files split: option.splits)
qed

lemma sample_run:
  "runVSCodeTests sampleHostEnv False sampleResolved
     = (Some (Error ''Failed''),
        [Download None,
         Mkdirs ''/proj'',
         WriteJson ''/proj/test.code-workspace'' emptyWorkspace,
         RunTests (launchOptions sampleHostEnv False sampleResolved ''/vscode/code''),
         Unlink ''/proj/test.code-workspace''])"
  by (simp add: runVSCodeTests_def runVSCodeTestsTry_def installExtensions_def
      sampleHostEnv_def sampleResolved_def)

theorem workspace_descriptor_lifecycle_witness:
  "initWorkspace sampleResolved
   \<and> reachesWorkspaceWrite sampleHostEnv sampleResolved
   \<and> writeJson sampleHostEnv (workspacePath sampleResolved) emptyWorkspace = None
   \<and> WriteJson (workspacePath sampleResolved) emptyWorkspace
        \<in> set (snd (runVSCodeTests sampleHostEnv False sampleResolved))
   \<and> Unlink (workspacePath sampleResolved)
        \<in> set (snd (runVSCodeTests sampleHostEnv False sampleResolved))
   \<and> fst (runVSCodeTests (sampleHostEnv\<lparr>unlink := (\<lambda>p. Some (Error ''EPERM''))\<rparr>) False
            sampleResolved)
       = Some (Error ''Failed'')"
proof -
  have 1: "initWorkspace sampleResolved"
    by (simp add: sampleResolved_def)
  have 2: "reachesWorkspaceWrite sampleHostEnv sampleResolved"
    by (simp add: reachesWorkspaceWrite_def installExtensions_def sampleHostEnv_def
        sampleResolved_def)
  have 3: "writeJson sampleHostEnv (workspacePath sampleResolved) emptyWorkspace = None"
    by (simp add: sampleHostEnv_def)
  note t = workspace_descriptor_lifecycle [of sampleHostEnv False sampleResolved]
  from t 1 2 have 4: "WriteJson (workspacePath sampleResolved) emptyWorkspace
        \<in> set (snd (runVSCodeTests sampleHostEnv False sampleResolved))"
    by blast
  from t 3 4 obtain before options where
    "snd (runVSCodeTests sampleHostEnv False sampleResolved)
       = before
         @ [WriteJson (workspacePath sampleResolved) emptyWorkspace, RunTests options,
            Unlink (workspacePath sampleResolved)]
         @ (case unlink sampleHostEnv (workspacePath sampleResolved) of
              None \<Rightarrow> []
            | Some e \<Rightarrow>
                [ConsoleError (''Could not delete workspace file at path ''
                               @ workspacePath sampleResolved) (Some e)])"
    by blast
  then have 5: "Unlink (workspacePath sampleResolved)
        \<in> set (snd (runVSCodeTests sampleHostEnv False sampleResolved))"
    by simp
  from t have "fst (runVSCodeTests (sampleHostEnv\<lparr>unlink := (\<lambda>p. Some (Error ''EPERM''))\<rparr>)
                      False sampleResolved)
       = fst (runVSCodeTests sampleHostEnv False sampleResolved)"
    by blast
  then have 6: "fst (runVSCodeTests (sampleHostEnv\<lparr>unlink := (\<lambda>p. Some (Error ''EPERM''))\<rparr>)
                       False sampleResolved)
       = Some (Error ''Failed'')"
    by (simp add: sample_run)
  show ?thesis by (intro conjI 1 2 3 4 5 6)
qed

theorem workspace_descriptor_counterexample:
  "initWorkspace sampleResolved
   \<and> runVSCodeTests
       (sampleHostEnv\<lparr>downloadAndUnzipVSCode := (\<lambda>version. Inl (Error ''offline''))\<rparr>)
       False sampleResolved
     = (Some (Error ''offline''), [Download None])"
  by (simp add: runVSCodeTests_def runVSCodeTestsTry_def sampleHostEnv_def sampleResolved_def)

section \<open>Proofs: the in-host test executor\<close>

subsection \<open>The count in the message\<close>

text \<open>
  \<^verbatim>\<open>numberToString\<close> writes a number in decimal: its digits read back as the number, and
  there is no leading zero.
\<close>

lemma decimalValue_snoc:
  "decimalValue (s @ [c]) = 10 * decimalValue s + ((of_char c :: nat) - 48)"
  by (simp add: decimalValue_def)

lemma digit_char:
  assumes "d < 10"
  shows "(of_char (char_of (48 + d :: nat)) :: nat) = 48 + d"
proof -
  have "(of_char (char_of (48 + d)) :: nat) = (48 + d) mod 256"
    by (rule of_char_of)
  with assms show ?thesis by simp
qed

lemma numberToString_value: "decimalValue (numberToString n) = n"
proof (induction n rule: numberToString.induct)
  case (1 n)
  show ?case
  proof (cases "n < 10")
    case True
    then show ?thesis
      by (subst numberToString.simps) (simp add: decimalValue_def digit_char)
  next
    case False
    have d: "n mod 10 < 10" by simp
    from False 1 have "decimalValue (numberToString (n div 10)) = n div 10" by simp
    with False show ?thesis
      by (subst numberToString.simps) (simp add: decimalValue_snoc digit_char [OF d])
  qed
qed

lemma numberToString_digits: "list_all isDecimalDigit (numberToString n)"
proof (induction n rule: numberToString.induct)
  case (1 n)
  show ?case
  proof (cases "n < 10")
    case True
    then show ?thesis
      by (subst numberToString.simps) (simp add: isDecimalDigit_def digit_char)
  next
    case False
    have d: "n mod 10 < 10" by simp
    from False 1 have "list_all isDecimalDigit (numberToString (n div 10))" by simp
    with False show ?thesis
      by (subst numberToString.simps) (simp add: isDecimalDigit_def digit_char [OF d])
  qed
qed

lemma numberToString_nonempty: "numberToString n \<noteq> []"
  by (subst numberToString.simps) simp

lemma numberToString_no_leading_zero:
  "0 < n \<Longrightarrow> hd (numberToString n) \<noteq> CHR ''0''"
proof (induction n rule: numberToString.induct)
  case (1 n)
  show ?case
  proof (cases "n < 10")
    case True
    have "(of_char (hd (numberToString n)) :: nat) = 48 + n"
      using True by (subst numberToString.simps) (simp add: digit_char)
    moreover have "(of_char CHR ''0'' :: nat) = 48" by simp
    ultimately show ?thesis using "1.prems" by (metis add_cancel_right_right less_numeral_extra(3))
  next
    case False
    then have "0 < n div 10" by (simp add: div_greater_zero_iff)
    with False 1 have "hd (numberToString (n div 10)) \<noteq> CHR ''0''" by simp
    with False show ?thesis
      by (subst numberToString.simps) (simp add: numberToString_nonempty)
  qed
qed

lemma numberToString_inj: "numberToString m = numberToString n \<Longrightarrow> m = n"
  by (metis numberToString_value)

lemma numberToString_12: "numberToString 12 = ''12''"
  by code_simp

lemma runMocha_reports:
  assumes "newMocha env config = None"
    and "globFiles env globPattern mochaCwd = Inr found"
    and "mochaRun env config (map (resolvePath env mochaCwd) found) = RunReports failures"
  shows "fst (runMocha env globPattern config mochaCwd)
           = (if 0 < failures then Rejected (Error (numberToString failures @ '' tests failed.''))
              else Resolved)"
  using assms by (simp add: runMocha_def Let_def)

text \<open>
  Claim C5. When the test runner reports its count of failing tests, \<^verbatim>\<open>run\<close> rejects
  with the error \<^verbatim>\<open>N tests failed.\<close> exactly when the count is greater than zero, where
  \<open>N\<close> is the count written in decimal (digits only, no leading zero, denoting the
  count), and resolves when the count is zero.
\<close>

theorem run_reports_failures:
  assumes "processEnv env ENV_VAR_MOCHA_CONFIG_PATH = Some configPath"
    and "processEnv env ENV_VAR_MOCHA_CWD = Some mochaCwd"
    and "requireModule env configPath = Inr config"
    and "handleSpec env config = Inr (globPattern, config1)"
    and "handleRequire env config1 = (None, config2, trace)"
    and "newMocha env config2 = None"
    and "globFiles env globPattern mochaCwd = Inr found"
    and "mochaRun env config2 (map (resolvePath env mochaCwd) found) = RunReports failures"
  shows "(fst (run env) = Rejected (Error (numberToString failures @ '' tests failed.''))
            \<longleftrightarrow> 0 < failures)
         \<and> (failures = 0 \<longrightarrow> fst (run env) = Resolved)
         \<and> fst (run env) = fst (runMocha env globPattern config2 mochaCwd)
         \<and> (0 < failures \<longrightarrow>
              (\<exists>digits. fst (run env) = Rejected (Error (digits @ '' tests failed.'')) \<and>
                 digits \<noteq> [] \<and> list_all isDecimalDigit digits \<and>
                 hd digits \<noteq> CHR ''0'' \<and> decimalValue digits = failures))
         \<and> (\<forall>n. Rejected (Error (numberToString n @ '' tests failed.'')) = fst (run env)
                \<longrightarrow> n = failures)"
proof -
  have m: "fst (runMocha env globPattern config2 mochaCwd)
           = (if 0 < failures then Rejected (Error (numberToString failures @ '' tests failed.''))
              else Resolved)"
    using assms(6-8) by (rule runMocha_reports)
  obtain state mochaTrace where r: "runMocha env globPattern config2 mochaCwd = (state, mochaTrace)"
    by (cases "runMocha env globPattern config2 mochaCwd") auto
  have "runInner env = (state, trace @ mochaTrace)"
    using assms(1-5) r by (simp add: runInner_def)
  then have "fst (run env) = state"
    by (cases state) (simp_all add: run_def)
  with r m have s: "fst (run env)
           = (if 0 < failures then Rejected (Error (numberToString failures @ '' tests failed.''))
              else Resolved)"
    and e: "fst (run env) = fst (runMocha env globPattern config2 mochaCwd)"
    by simp_all
  have 1: "fst (run env) = Rejected (Error (numberToString failures @ '' tests failed.''))
            \<longleftrightarrow> 0 < failures"
    using s by simp
  have 2: "failures = 0 \<longrightarrow> fst (run env) = Resolved"
    using s by simp
  have 4: "0 < failures \<longrightarrow>
              (\<exists>digits. fst (run env) = Rejected (Error (digits @ '' tests failed.'')) \<and>
                 digits \<noteq> [] \<and> list_all isDecimalDigit digits \<and>
                 hd digits \<noteq> CHR ''0'' \<and> decimalValue digits = failures)"
  proof
    assume p: "0 < failures"
    show "\<exists>digits. fst (run env) = Rejected (Error (digits @ '' tests failed.'')) \<and>
                 digits \<noteq> [] \<and> list_all isDecimalDigit digits \<and>
                 hd digits \<noteq> CHR ''0'' \<and> decimalValue digits = failures"
    proof (intro exI conjI)
      show "fst (run env) = Rejected (Error (numberToString failures @ '' tests failed.''))"
        using s p by simp
      show "numberToString failures \<noteq> []" by (rule numberToString_nonempty)
      show "list_all isDecimalDigit (numberToString failures)" by (rule numberToString_digits)
      show "hd (numberToString failures) \<noteq> CHR ''0''"
        using p by (rule numberToString_no_leading_zero)
      show "decimalValue (numberToString failures) = failures" by (rule numberToString_value)
    qed
  qed
  have 5: "\<forall>n. Rejected (Error (numberToString n @ '' tests failed.'')) = fst (run env)
                \<longrightarrow> n = failures"
  proof (intro allI impI)
    fix n
    assume "Rejected (Error (numberToString n @ '' tests failed.'')) = fst (run env)"
    with s have "numberToString n = numberToString failures"
      by (simp split: if_splits)
    then show "n = failures" by (rule numberToString_inj)
  qed
  show ?thesis by (intro conjI 1 2 e 4 5)
qed

theorem run_reports_failures_witness:
  "processEnv (sampleMochaEnv [''spec'' \<mapsto> JStr ''test/*.js''] 12) ENV_VAR_MOCHA_CONFIG_PATH
     = Some ''/ext/mocha.json''
   \<and> processEnv (sampleMochaEnv [''spec'' \<mapsto> JStr ''test/*.js''] 12) ENV_VAR_MOCHA_CWD
     = Some ''/ext''
   \<and> requireModule (sampleMochaEnv [''spec'' \<mapsto> JStr ''test/*.js''] 12) ''/ext/mocha.json''
     = Inr [''spec'' \<mapsto> JStr ''test/*.js'']
   \<and> mochaRun (sampleMochaEnv [''spec'' \<mapsto> JStr ''test/*.js''] 12)
        ([''spec'' \<mapsto> JStr ''test/*.js''](''spec'' := None, ''require'' := None))
        (map (resolvePath (sampleMochaEnv [''spec'' \<mapsto> JStr ''test/*.js''] 12) ''/ext'')
           [''test/a.test.js''])
     = RunReports 12
   \<and> fst (run (sampleMochaEnv [''spec'' \<mapsto> JStr ''test/*.js''] 12))
     = Rejected (Error ''12 tests failed.'')
   \<and> decimalValue ''12'' = 12"
proof -
  let ?c = "[''spec'' \<mapsto> JStr ''test/*.js'']"
  let ?env = "sampleMochaEnv ?c 12"
  have 1: "processEnv ?env ENV_VAR_MOCHA_CONFIG_PATH = Some ''/ext/mocha.json''"
    and 2: "processEnv ?env ENV_VAR_MOCHA_CWD = Some ''/ext''"
    and 3: "requireModule ?env ''/ext/mocha.json'' = Inr ?c"
    and 6: "newMocha ?env (?c(''spec'' := None, ''require'' := None)) = None"
    and 7: "globFiles ?env ''test/*.js'' ''/ext'' = Inr [''test/a.test.js'']"
    and 8: "mochaRun ?env (?c(''spec'' := None, ''require'' := None))
              (map (resolvePath ?env ''/ext'') [''test/a.test.js'']) = RunReports 12"
    by (simp_all add: sampleMochaEnv_def ENV_VAR_MOCHA_CONFIG_PATH_def ENV_VAR_MOCHA_CWD_def)
  have 4: "handleSpec ?env ?c = Inr (''test/*.js'', ?c(''spec'' := None))"
    by (simp add: handleSpec_def getProp_def)
  have 5: "handleRequire ?env (?c(''spec'' := None))
             = (None, ?c(''spec'' := None, ''require'' := None), [])"
    by (simp add: handleRequire_def getProp_def)
  from run_reports_failures [OF 1 2 3 4 5 6 7 8, THEN conjunct1]
  have 9: "fst (run ?env) = Rejected (Error ''12 tests failed.'')"
    by (simp add: numberToString_12)
  have 10: "decimalValue ''12'' = 12"
    using numberToString_value [of 12] by (simp add: numberToString_12)
  show ?thesis by (intro conjI 1 2 3 8 9 10)
qed

subsection \<open>A \<^verbatim>\<open>require\<close> value of a wrong type\<close>

text \<open>An array with an entry that is not a string makes \<^verbatim>\<open>handleRequire\<close> throw.\<close>

lemma requireAll_rejects_non_string:
  assumes "\<exists>v \<in> set modules. \<not> isStringValue v"
  shows "\<exists>e. fst (requireAll env modules) = Some e"
  using assms
proof (induction env modules rule: requireAll.induct)
  case (2 env module modules)
  then show ?case
    by (cases "requireModule env module"; cases "requireAll env modules")
       (auto simp: isStringValue_def)
qed (auto simp: isStringValue_def)

text \<open>Every other value that is not a string is accepted without a check.\<close>

lemma handleRequire_ignores_other_values:
  assumes "getProp config ''require'' = v"
    and "case v of JStr s \<Rightarrow> False | JArr vs \<Rightarrow> False | _ \<Rightarrow> True"
  shows "handleRequire env config = (None, config(''require'' := None), [])"
  using assms by (cases v) (simp_all add: handleRequire_def)

text \<open>
  Claim C7 fails on the code. \<^verbatim>\<open>handleRequire\<close> rejects an array with an entry that is not
  a string, but a \<^verbatim>\<open>require\<close> value that is neither a string nor an array, such as the
  number 5, is dropped without an error: the run goes on to discover the test files and
  resolves.
\<close>

theorem require_number_accepted:
  "fst (handleRequire (sampleMochaEnv [''spec'' \<mapsto> JStr ''test/*.js'', ''require'' \<mapsto> JNum 5] 0)
          ([''spec'' \<mapsto> JStr ''test/*.js'', ''require'' \<mapsto> JNum 5](''spec'' := None)))
     = None
   \<and> fst (run (sampleMochaEnv [''spec'' \<mapsto> JStr ''test/*.js'', ''require'' \<mapsto> JNum 5] 0))
     = Resolved
   \<and> Glob ''test/*.js'' ''/ext''
       \<in> set (snd (run (sampleMochaEnv
                          [''spec'' \<mapsto> JStr ''test/*.js'', ''require'' \<mapsto> JNum 5] 0)))"
  by (simp add: run_def runInner_def runMocha_def handleSpec_def handleRequire_def getProp_def
      sampleMochaEnv_def ENV_VAR_MOCHA_CONFIG_PATH_def ENV_VAR_MOCHA_CWD_def Let_def)

end
